theory Spec2Isabelle
  imports Complex_Main "HOL-Library.List_Lexorder" "HOL-Library.Char_ord"
    "HOL-Library.Log_Nat"
begin

section \<open>Python values and library functions used by the engines\<close>

text \<open>
  The two modules verified here are \<^verbatim>\<open>backend/cost_predictor.py\<close> (class
  \<^verbatim>\<open>CostPredictionEngine\<close>) and \<^verbatim>\<open>backend/provider_intelligence.py\<close> (class
  \<^verbatim>\<open>ProviderIntelligence\<close>).  Python \<^verbatim>\<open>int\<close> is \<^typ>\<open>int\<close>; Python \<^verbatim>\<open>float\<close> is
  idealised as \<^typ>\<open>real\<close> (exact arithmetic, no rounding error, no infinities);
  \<^verbatim>\<open>str\<close> is \<^typ>\<open>string\<close>.  Every exception the code can raise is a value of
  \<open>py_error\<close>, and an operation that can raise returns \<open>py_error + 'a\<close>.
\<close>

datatype py_error =
    ValueError string
  | ZeroDivisionError
  | StatisticsError
  | UnboundLocalError
  | IndexError
  | KeyError string

text \<open>\<^verbatim>\<open>int(x)\<close> on a float truncates towards zero.\<close>

definition py_int :: "real \<Rightarrow> int" where
  "py_int x = (if 0 \<le> x then \<lfloor>x\<rfloor> else \<lceil>x\<rceil>)"

text \<open>\<^verbatim>\<open>round(x, n)\<close>: to \<open>n\<close> decimal places, ties to the even neighbour.\<close>

definition round_half_even :: "real \<Rightarrow> int" where
  "round_half_even x =
     (let f = \<lfloor>x\<rfloor>; d = x - of_int f
      in if d < 1 / 2 then f
         else if 1 / 2 < d then f + 1
         else if even f then f else f + 1)"

definition py_round :: "real \<Rightarrow> nat \<Rightarrow> real" where
  "py_round x n = of_int (round_half_even (x * 10 ^ n)) / 10 ^ n"

text \<open>\<^verbatim>\<open>x / y\<close> on numbers raises \<^verbatim>\<open>ZeroDivisionError\<close> when \<open>y\<close> is zero.\<close>

definition py_div :: "real \<Rightarrow> real \<Rightarrow> py_error + real" where
  "py_div x y = (if y = 0 then Inl ZeroDivisionError else Inr (x / y))"

text \<open>\<^verbatim>\<open>statistics.mean\<close> raises \<^verbatim>\<open>StatisticsError\<close> on an empty sequence.\<close>

definition mean :: "real list \<Rightarrow> py_error + real" where
  "mean xs = (if xs = [] then Inl StatisticsError
              else Inr (sum_list xs / real (length xs)))"

text \<open>\<^verbatim>\<open>statistics.stdev\<close>: the sample standard deviation; it raises
  \<^verbatim>\<open>StatisticsError\<close> on fewer than two data points.\<close>

definition stdev :: "real list \<Rightarrow> py_error + real" where
  "stdev xs =
     (if length xs < 2 then Inl StatisticsError
      else let m = sum_list xs / real (length xs)
           in Inr (sqrt (sum_list (map (\<lambda>x. (x - m)\<^sup>2) xs) / real (length xs - 1))))"

section \<open>Provider intelligence: data\<close>

record model_limits =
  input_tokens :: int
  output_tokens :: int

record provider_config =
  models :: "(string \<times> model_limits) list"
  cost_per_1k_input :: real
  cost_per_1k_output :: real
  speed :: int
  quality :: int

text \<open>The class attribute \<^verbatim>\<open>PROVIDERS\<close>; a dict keeps insertion order, which
  \<^verbatim>\<open>get_provider_recommendations\<close> iterates in.\<close>

definition PROVIDERS :: "(string \<times> provider_config) list" where
  "PROVIDERS =
    [(''openai'',
       \<lparr>models = [(''gpt-4-turbo'', \<lparr>input_tokens = 4096, output_tokens = 8192\<rparr>),
                  (''gpt-4'', \<lparr>input_tokens = 8192, output_tokens = 32768\<rparr>),
                  (''gpt-3.5-turbo'', \<lparr>input_tokens = 4096, output_tokens = 4096\<rparr>)],
        cost_per_1k_input = 0.03, cost_per_1k_output = 0.06, speed = 1, quality = 1\<rparr>),
     (''anthropic'',
       \<lparr>models = [(''claude-3-opus'', \<lparr>input_tokens = 200000, output_tokens = 4096\<rparr>),
                  (''claude-3-sonnet'', \<lparr>input_tokens = 200000, output_tokens = 4096\<rparr>),
                  (''claude-3-haiku'', \<lparr>input_tokens = 200000, output_tokens = 4096\<rparr>)],
        cost_per_1k_input = 0.015, cost_per_1k_output = 0.075, speed = 2, quality = 2\<rparr>),
     (''google'',
       \<lparr>models = [(''gemini-pro'', \<lparr>input_tokens = 32768, output_tokens = 8192\<rparr>),
                  (''gemini-1.5-pro'', \<lparr>input_tokens = 1000000, output_tokens = 4096\<rparr>)],
        cost_per_1k_input = 0.000125, cost_per_1k_output = 0.000375, speed = 2, quality = 2\<rparr>),
     (''azure'',
       \<lparr>models = [(''gpt-4-deployment'', \<lparr>input_tokens = 8192, output_tokens = 32768\<rparr>),
                  (''gpt-35-turbo'', \<lparr>input_tokens = 4096, output_tokens = 4096\<rparr>)],
        cost_per_1k_input = 0.03, cost_per_1k_output = 0.06, speed = 1, quality = 1\<rparr>),
     (''groq'',
       \<lparr>models = [(''mixtral-8x7b'', \<lparr>input_tokens = 32768, output_tokens = 8192\<rparr>),
                  (''llama2-70b'', \<lparr>input_tokens = 4096, output_tokens = 1024\<rparr>)],
        cost_per_1k_input = 0.0005, cost_per_1k_output = 0.0015, speed = 3, quality = 3\<rparr>)]"

record optimization_level_config =
  tokens_saved_pct :: real
  description :: string
  use_case :: string

definition OPTIMIZATION_LEVELS :: "(string \<times> optimization_level_config) list" where
  "OPTIMIZATION_LEVELS =
    [(''conservative'',
       \<lparr>tokens_saved_pct = 0.15, description = ''Minimal risk, 15% savings'',
        use_case = ''Critical tasks''\<rparr>),
     (''balanced'',
       \<lparr>tokens_saved_pct = 0.28, description = ''Recommended, 28% savings'',
        use_case = ''General use''\<rparr>),
     (''aggressive'',
       \<lparr>tokens_saved_pct = 0.42, description = ''Fast results, 42% savings'',
        use_case = ''Performance critical''\<rparr>)]"

text \<open>One entry of \<^verbatim>\<open>provider_calibration\<close>.\<close>

record calibration =
  token_ratio :: real
  sample_count :: int
  cost_per_token :: real

text \<open>One entry of a user's \<^verbatim>\<open>user_history\<close> list; \<^verbatim>\<open>datetime.now().isoformat()\<close>
  is an input of the model.\<close>

record history_record =
  hist_timestamp :: string
  hist_provider :: string
  hist_tokens_estimated :: int
  hist_tokens_actual :: int
  hist_cost :: real
  hist_optimization_level :: string
  hist_text_length :: int

record provider_intelligence =
  user_history :: "string \<rightharpoonup> history_record list"
  provider_calibration :: "string \<rightharpoonup> calibration"
  pi_learning_enabled :: bool

definition ProviderIntelligence_init :: provider_intelligence where
  "ProviderIntelligence_init =
     \<lparr>user_history = Map.empty, provider_calibration = Map.empty, pi_learning_enabled = True\<rparr>"

text \<open>The dict returned by \<^verbatim>\<open>estimate_provider_tokens\<close>.\<close>

record estimate =
  est_provider :: string
  est_model :: string
  estimated_input_tokens :: int
  estimated_output_tokens :: int
  est_total_tokens :: int
  cost_usd :: real
  cost_per_1k_tokens :: real
  tokens_per_dollar :: real

section \<open>Provider intelligence: \<^verbatim>\<open>estimate_provider_tokens\<close>\<close>

text \<open>\<^verbatim>\<open>list(provider_config['models'].keys())[0]\<close>\<close>

definition first_model :: "provider_config \<Rightarrow> py_error + string" where
  "first_model cfg = (case models cfg of [] \<Rightarrow> Inl IndexError | (m, _) # _ \<Rightarrow> Inr m)"

text \<open>The estimated input tokens: \<^verbatim>\<open>len(text) // 4\<close>, multiplied by the provider's
  \<^verbatim>\<open>token_ratio\<close> and truncated when the provider has a calibration record.\<close>

definition calibrated_input_tokens :: "provider_intelligence \<Rightarrow> string \<Rightarrow> string \<Rightarrow> int" where
  "calibrated_input_tokens self txt provider =
     (let n = int (length txt) div 4
      in case provider_calibration self provider of
           None \<Rightarrow> n
         | Some calib \<Rightarrow> py_int (real_of_int n * token_ratio calib))"

definition estimate_provider_tokens ::
  "provider_intelligence \<Rightarrow> string \<Rightarrow> string \<Rightarrow> string option \<Rightarrow> py_error + estimate" where
  "estimate_provider_tokens self txt provider model =
     (case map_of PROVIDERS provider of
        None \<Rightarrow> Inl (ValueError (''Unknown provider: '' @ provider))
      | Some cfg \<Rightarrow>
         (case (case model of None \<Rightarrow> first_model cfg | Some m \<Rightarrow> Inr m) of
            Inl e \<Rightarrow> Inl e
          | Inr m \<Rightarrow>
             if map_of (models cfg) m = None
             then Inl (ValueError (''Unknown model: '' @ m))
             else
               let tin = calibrated_input_tokens self txt provider;
                   tout = py_int (real_of_int tin * 0.2);
                   input_cost = (real_of_int tin / 1000) * cost_per_1k_input cfg;
                   output_cost = (real_of_int tout / 1000) * cost_per_1k_output cfg;
                   total_cost = input_cost + output_cost
               in (case py_div (total_cost * 1000) (real_of_int (tin + tout)) of
                    Inl e \<Rightarrow> Inl e
                  | Inr per_1k \<Rightarrow>
                     Inr \<lparr>est_provider = provider,
                          est_model = m,
                          estimated_input_tokens = tin,
                          estimated_output_tokens = tout,
                          est_total_tokens = tin + tout,
                          cost_usd = py_round total_cost 4,
                          cost_per_1k_tokens = py_round per_1k 4,
                          tokens_per_dollar =
                            py_round (if 0 < total_cost
                                      then real_of_int (tin + tout) / total_cost else 0) 2\<rparr>)))"

section \<open>Provider intelligence: \<^verbatim>\<open>get_provider_recommendations\<close>\<close>

text \<open>The \<^verbatim>\<open>user_preferences\<close> dict: either key may be absent.\<close>

record user_preferences =
  priority :: "string option"
  budget_limit :: "real option"

text \<open>\<^verbatim>\<open>preferences.get('priority', 'cost')\<close> and
  \<^verbatim>\<open>preferences.get('budget_limit', 1.00)\<close>\<close>

definition get_priority :: "user_preferences \<Rightarrow> string" where
  "get_priority prefs = (case priority prefs of None \<Rightarrow> ''cost'' | Some p \<Rightarrow> p)"

definition get_budget_limit :: "user_preferences \<Rightarrow> real" where
  "get_budget_limit prefs = (case budget_limit prefs of None \<Rightarrow> 1 | Some b \<Rightarrow> b)"

text \<open>\<^verbatim>\<open>self.PROVIDERS[p]['speed']\<close> and \<^verbatim>\<open>self.PROVIDERS[p]['quality']\<close>\<close>

definition provider_speed :: "string \<Rightarrow> py_error + int" where
  "provider_speed p =
     (case map_of PROVIDERS p of None \<Rightarrow> Inl (KeyError p) | Some cfg \<Rightarrow> Inr (speed cfg))"

definition provider_quality :: "string \<Rightarrow> py_error + int" where
  "provider_quality p =
     (case map_of PROVIDERS p of None \<Rightarrow> Inl (KeyError p) | Some cfg \<Rightarrow> Inr (quality cfg))"

definition best_value_badge :: "estimate \<Rightarrow> string" where
  "best_value_badge est =
     (if 50000 < tokens_per_dollar est then ''BEST_VALUE'' else ''GOOD_CHOICE'')"

definition get_recommendation_badge :: "estimate \<Rightarrow> user_preferences \<Rightarrow> py_error + string" where
  "get_recommendation_badge est prefs =
     (let prio = get_priority prefs
      in if prio = ''cost'' \<and> cost_usd est < 0.01 then Inr ''LOWEST_COST''
         else if prio = ''speed'' then
           (case provider_speed (est_provider est) of
              Inl e \<Rightarrow> Inl e
            | Inr s \<Rightarrow> if s = 1 then Inr ''FASTEST'' else Inr (best_value_badge est))
         else if prio = ''quality'' then
           (case provider_quality (est_provider est) of
              Inl e \<Rightarrow> Inl e
            | Inr q \<Rightarrow> if q = 1 then Inr ''BEST_QUALITY'' else Inr (best_value_badge est))
         else Inr (best_value_badge est))"

text \<open>One value of the dict built by \<^verbatim>\<open>_calculate_optimization_potential\<close>.\<close>

record potential =
  tokens_saved :: int
  pot_tokens_saved_pct :: int
  cost_saved :: real
  cost_saved_pct :: int
  pot_description :: string

definition calculate_optimization_potential :: "estimate \<Rightarrow> (string \<times> potential) list" where
  "calculate_optimization_potential est =
     map (\<lambda>(lvl, config).
            let saved = py_int (real_of_int (est_total_tokens est) * tokens_saved_pct config);
                cost_saved' = (real_of_int saved / 1000) * cost_per_1k_tokens est
            in (lvl, \<lparr>tokens_saved = saved,
                      pot_tokens_saved_pct = py_int (tokens_saved_pct config * 100),
                      cost_saved = py_round cost_saved' 4,
                      cost_saved_pct = py_int (tokens_saved_pct config * 100),
                      pot_description = description config\<rparr>))
         OPTIMIZATION_LEVELS"

definition calculate_rank :: "estimate \<Rightarrow> user_preferences \<Rightarrow> py_error + real" where
  "calculate_rank est prefs =
     (let prio = get_priority prefs; budget = get_budget_limit prefs
      in if budget < cost_usd est then Inr 0
         else if prio = ''cost'' then
           (case py_div (cost_usd est) budget of
              Inl e \<Rightarrow> Inl e | Inr q \<Rightarrow> Inr (1 - q))
         else if prio = ''speed'' then
           (case provider_speed (est_provider est) of
              Inl e \<Rightarrow> Inl e | Inr s \<Rightarrow> py_div 1 (real_of_int s))
         else if prio = ''quality'' then
           (case provider_quality (est_provider est) of
              Inl e \<Rightarrow> Inl e | Inr q \<Rightarrow> py_div 1 (real_of_int q))
         else Inr (tokens_per_dollar est / 100000))"

text \<open>One dict of the list returned by \<^verbatim>\<open>get_provider_recommendations\<close>; the key
  \<^verbatim>\<open>'recommendation'\<close> is the field \<open>badge\<close>.\<close>

record recommendation =
  rec_provider :: string
  rec_model :: string
  estimated_tokens :: int
  rec_cost_usd :: real
  rec_tokens_per_dollar :: real
  rec_cost_per_1k_tokens :: real
  optimization_potential :: "(string \<times> potential) list"
  badge :: string
  rank :: real

text \<open>The body of the loop over \<^verbatim>\<open>self.PROVIDERS.keys()\<close>, for one provider.\<close>

definition recommend_provider ::
  "provider_intelligence \<Rightarrow> string \<Rightarrow> user_preferences \<Rightarrow> string \<Rightarrow> py_error + recommendation" where
  "recommend_provider self txt prefs provider =
     (case estimate_provider_tokens self txt provider None of
        Inl e \<Rightarrow> Inl e
      | Inr est \<Rightarrow>
         (case get_recommendation_badge est prefs of
            Inl e \<Rightarrow> Inl e
          | Inr b \<Rightarrow>
             (case calculate_rank est prefs of
                Inl e \<Rightarrow> Inl e
              | Inr rk \<Rightarrow>
                 Inr \<lparr>rec_provider = est_provider est,
                      rec_model = est_model est,
                      estimated_tokens = est_total_tokens est,
                      rec_cost_usd = cost_usd est,
                      rec_tokens_per_dollar = tokens_per_dollar est,
                      rec_cost_per_1k_tokens = cost_per_1k_tokens est,
                      optimization_potential = calculate_optimization_potential est,
                      badge = b,
                      rank = rk\<rparr>)))"

text \<open>A loop that stops at the first exception.\<close>

fun map_raise :: "('a \<Rightarrow> py_error + 'b) \<Rightarrow> 'a list \<Rightarrow> py_error + 'b list" where
  "map_raise f [] = Inr []"
| "map_raise f (x # xs) =
     (case f x of
        Inl e \<Rightarrow> Inl e
      | Inr y \<Rightarrow> (case map_raise f xs of Inl e \<Rightarrow> Inl e | Inr ys \<Rightarrow> Inr (y # ys)))"

text \<open>\<^verbatim>\<open>list.sort(key=..., reverse=...)\<close>: the keys are computed first (a key function
  may raise), the sort is stable, and a reverse sort keeps equal keys in their original
  order.\<close>

definition py_sort :: "('a \<Rightarrow> py_error + 'k::linorder) \<Rightarrow> bool \<Rightarrow> 'a list \<Rightarrow> py_error + 'a list" where
  "py_sort key reverse xs =
     (case map_raise key xs of
        Inl e \<Rightarrow> Inl e
      | Inr ks \<Rightarrow>
         Inr (map snd (if reverse then rev (sort_key fst (rev (zip ks xs)))
                       else sort_key fst (zip ks xs))))"

definition sort_recommendations ::
  "user_preferences \<Rightarrow> recommendation list \<Rightarrow> py_error + recommendation list" where
  "sort_recommendations prefs recs =
     (let prio = get_priority prefs
      in if prio = ''cost'' then py_sort (\<lambda>x. Inr (rec_cost_usd x)) False recs
         else if prio = ''speed'' then py_sort (\<lambda>x. provider_speed (rec_provider x)) False recs
         else if prio = ''quality'' then py_sort (\<lambda>x. provider_quality (rec_provider x)) False recs
         else py_sort (\<lambda>x. Inr (rec_tokens_per_dollar x)) True recs)"

definition default_preferences :: user_preferences where
  "default_preferences = \<lparr>priority = Some ''cost'', budget_limit = Some 1\<rparr>"

text \<open>\<^verbatim>\<open>if user_preferences is None: user_preferences = {...}\<close>\<close>

definition effective_preferences :: "user_preferences option \<Rightarrow> user_preferences" where
  "effective_preferences user_prefs =
     (case user_prefs of None \<Rightarrow> default_preferences | Some p \<Rightarrow> p)"

definition get_provider_recommendations ::
  "provider_intelligence \<Rightarrow> string \<Rightarrow> user_preferences option \<Rightarrow> py_error + recommendation list" where
  "get_provider_recommendations self txt user_prefs =
     (let prefs = effective_preferences user_prefs
      in case map_raise (recommend_provider self txt prefs) (map fst PROVIDERS) of
           Inl e \<Rightarrow> Inl e
         | Inr recs \<Rightarrow>
            (case sort_recommendations prefs recs of
               Inl e \<Rightarrow> Inl e
             | Inr sorted_recs \<Rightarrow> Inr (take 3 sorted_recs)))"

section \<open>Provider intelligence: \<^verbatim>\<open>learn_from_optimization\<close>\<close>

text \<open>The calibration record a provider starts from.\<close>

definition initial_calibration :: calibration where
  "initial_calibration = \<lparr>token_ratio = 1, sample_count = 0, cost_per_token = 0\<rparr>"

definition current_calibration :: "provider_intelligence \<Rightarrow> string \<Rightarrow> calibration" where
  "current_calibration self provider =
     (case provider_calibration self provider of None \<Rightarrow> initial_calibration | Some c \<Rightarrow> c)"

text \<open>\<open>now\<close> is \<^verbatim>\<open>datetime.now().isoformat()\<close>; the method returns nothing and
  mutates the engine, so the model returns the new engine.\<close>

definition learn_from_optimization ::
  "provider_intelligence \<Rightarrow> string \<Rightarrow> string \<Rightarrow> string \<Rightarrow> string \<Rightarrow> int \<Rightarrow> int \<Rightarrow> real \<Rightarrow> string
     \<Rightarrow> provider_intelligence" where
  "learn_from_optimization self now user_id provider txt tokens_estimated tokens_actual cost
       optimization_level =
     (if \<not> pi_learning_enabled self then self
      else
        let history = (case user_history self user_id of None \<Rightarrow> [] | Some h \<Rightarrow> h);
            entry = \<lparr>hist_timestamp = now,
                     hist_provider = provider,
                     hist_tokens_estimated = tokens_estimated,
                     hist_tokens_actual = tokens_actual,
                     hist_cost = cost,
                     hist_optimization_level = optimization_level,
                     hist_text_length = int (length txt)\<rparr>;
            calib = current_calibration self provider;
            calib1 = (if 0 < tokens_estimated
                      then calib\<lparr>token_ratio :=
                             (3 / 10) * (real_of_int tokens_actual / real_of_int tokens_estimated)
                             + (1 - 3 / 10) * token_ratio calib\<rparr>
                      else calib);
            calib2 = calib1\<lparr>sample_count := sample_count calib1 + 1\<rparr>;
            calib3 = calib2\<lparr>cost_per_token :=
                       (if 0 < tokens_actual then cost / real_of_int tokens_actual else 0)\<rparr>
        in self\<lparr>user_history := (user_history self)(user_id \<mapsto> history @ [entry]),
                provider_calibration := (provider_calibration self)(provider \<mapsto> calib3)\<rparr>)"

section \<open>Cost prediction engine: the usage ledger\<close>

text \<open>One entry of a daily record's \<^verbatim>\<open>'requests'\<close> list.\<close>

record usage_request =
  req_timestamp :: string
  req_provider :: string
  req_tokens :: int
  req_cost :: real
  req_level :: string

text \<open>The \<^verbatim>\<open>{'cost': ..., 'tokens': ...}\<close> dicts kept per provider and per level.\<close>

record cost_tokens =
  ct_cost :: real
  ct_tokens :: int

text \<open>A daily record.  The dicts \<^verbatim>\<open>by_provider\<close> and \<^verbatim>\<open>by_level\<close> are association
  lists in insertion order.\<close>

record daily_record =
  date :: string
  total_cost :: real
  total_tokens :: int
  requests :: "usage_request list"
  by_provider :: "(string \<times> cost_tokens) list"
  by_level :: "(string \<times> cost_tokens) list"

text \<open>The engine: \<^verbatim>\<open>user_usage\<close> and \<^verbatim>\<open>learning_enabled\<close> (\<^verbatim>\<open>user_models\<close> is
  never read or written by any method).\<close>

record cost_prediction_engine =
  user_usage :: "string \<rightharpoonup> daily_record list"
  cp_learning_enabled :: bool

definition CostPredictionEngine_init :: cost_prediction_engine where
  "CostPredictionEngine_init = \<lparr>user_usage = Map.empty, cp_learning_enabled = True\<rparr>"

text \<open>What the methods read from \<^verbatim>\<open>datetime.now()\<close>: the ISO date, the month and the
  day of the month.\<close>

record clock =
  now_date :: string
  now_month :: int
  now_day :: int

definition new_daily_record :: "string \<Rightarrow> daily_record" where
  "new_daily_record today =
     \<lparr>date = today, total_cost = 0, total_tokens = 0, requests = [],
      by_provider = [], by_level = []\<rparr>"

text \<open>\<^verbatim>\<open>if k not in d: d[k] = {'cost': 0, 'tokens': 0}\<close>, then
  \<^verbatim>\<open>d[k]['cost'] += cost; d[k]['tokens'] += tokens\<close>\<close>

fun add_usage :: "string \<Rightarrow> real \<Rightarrow> int \<Rightarrow> (string \<times> cost_tokens) list \<Rightarrow> (string \<times> cost_tokens) list" where
  "add_usage k c t [] = [(k, \<lparr>ct_cost = 0 + c, ct_tokens = 0 + t\<rparr>)]"
| "add_usage k c t ((k', v) # d) =
     (if k' = k then (k', \<lparr>ct_cost = ct_cost v + c, ct_tokens = ct_tokens v + t\<rparr>) # d
      else (k', v) # add_usage k c t d)"

text \<open>The block under \<^verbatim>\<open># Update record\<close>, on the record of today.\<close>

definition update_record ::
  "string \<Rightarrow> string \<Rightarrow> int \<Rightarrow> real \<Rightarrow> string \<Rightarrow> daily_record \<Rightarrow> daily_record" where
  "update_record timestamp provider tokens_used cost optimization_level r =
     r\<lparr>total_cost := total_cost r + cost,
       total_tokens := total_tokens r + tokens_used,
       requests := requests r @
          [\<lparr>req_timestamp = timestamp, req_provider = provider, req_tokens = tokens_used,
            req_cost = cost, req_level = optimization_level\<rparr>],
       by_provider := add_usage provider cost tokens_used (by_provider r),
       by_level := add_usage optimization_level cost tokens_used (by_level r)\<rparr>"

text \<open>Find the first record dated today and update it in place; when there is none,
  append a new one and update that.\<close>

fun update_today :: "string \<Rightarrow> (daily_record \<Rightarrow> daily_record) \<Rightarrow> daily_record list \<Rightarrow> daily_record list" where
  "update_today today f [] = [f (new_daily_record today)]"
| "update_today today f (r # rs) =
     (if date r = today then f r # rs else r # update_today today f rs)"

text \<open>\<open>today\<close> is \<^verbatim>\<open>datetime.now().date().isoformat()\<close> and \<open>timestamp\<close> is
  \<^verbatim>\<open>datetime.now().isoformat()\<close>; the method returns nothing and mutates the engine.\<close>

definition record_usage ::
  "cost_prediction_engine \<Rightarrow> string \<Rightarrow> string \<Rightarrow> string \<Rightarrow> string \<Rightarrow> int \<Rightarrow> real \<Rightarrow> string
     \<Rightarrow> cost_prediction_engine" where
  "record_usage self today timestamp user_id provider tokens_used cost optimization_level =
     (if \<not> cp_learning_enabled self then self
      else
        let usage = (case user_usage self user_id of None \<Rightarrow> [] | Some u \<Rightarrow> u)
        in self\<lparr>user_usage := (user_usage self)(user_id \<mapsto>
               update_today today
                 (update_record timestamp provider tokens_used cost optimization_level) usage)\<rparr>)"

section \<open>Cost prediction engine: \<^verbatim>\<open>predict_monthly_cost\<close>\<close>

record cost_prediction =
  daily_average :: real
  current_period_cost :: real
  projected_period_end :: real
  days_remaining :: int
  confidence :: real
  trend :: string

definition zero_prediction :: cost_prediction where
  "zero_prediction =
     \<lparr>daily_average = 0, current_period_cost = 0, projected_period_end = 0,
      days_remaining = 0, confidence = 0, trend = ''stable''\<rparr>"

text \<open>The pair \<^verbatim>\<open>(daily_average, confidence)\<close> of the block under
  \<^verbatim>\<open># Calculate daily costs\<close>.\<close>

definition average_and_confidence :: "real list \<Rightarrow> py_error + real \<times> real" where
  "average_and_confidence daily_costs =
     (if daily_costs = [] then Inr (0, 0)
      else case mean daily_costs of
             Inl e \<Rightarrow> Inl e
           | Inr m \<Rightarrow>
              let data_points = length daily_costs
              in Inr (m, min 0.95 (0.5 + real data_points * 0.05)))"

text \<open>The block under \<^verbatim>\<open># Detect trend\<close>: \<^verbatim>\<open>daily_costs[-3:]\<close> are the last three
  costs and \<^verbatim>\<open>daily_costs[:-3]\<close> all the costs before them.\<close>

definition detect_trend :: "real list \<Rightarrow> py_error + string" where
  "detect_trend daily_costs =
     (if 3 \<le> length daily_costs then
        (case mean (drop (length daily_costs - 3) daily_costs) of
           Inl e \<Rightarrow> Inl e
         | Inr recent_avg \<Rightarrow>
            (case mean (take (length daily_costs - 3) daily_costs) of
               Inl e \<Rightarrow> Inl e
             | Inr older_avg \<Rightarrow>
                if older_avg * 1.1 < recent_avg then Inr ''up''
                else if recent_avg < older_avg * 0.9 then Inr ''down''
                else Inr ''stable''))
      else Inr ''stable'')"

definition days_in_month :: "int \<Rightarrow> int" where
  "days_in_month m = (if m = 2 then 28 else if m \<in> set [4, 6, 9, 11] then 30 else 31)"

definition predict_monthly_cost ::
  "cost_prediction_engine \<Rightarrow> clock \<Rightarrow> string \<Rightarrow> py_error + cost_prediction" where
  "predict_monthly_cost self now user_id =
     (case user_usage self user_id of
        None \<Rightarrow> Inr zero_prediction
      | Some usage \<Rightarrow>
         if usage = [] then Inr zero_prediction
         else
           let daily_costs = map total_cost usage
           in (case average_and_confidence daily_costs of
                Inl e \<Rightarrow> Inl e
              | Inr (daily_avg, conf) \<Rightarrow>
                 let current = sum_list (map total_cost
                                 (filter (\<lambda>r. date r \<le> now_date now) usage));
                     remaining = days_in_month (now_month now) - now_day now;
                     projected_additional = daily_avg * real_of_int remaining;
                     projected = current + projected_additional
                 in (case detect_trend daily_costs of
                      Inl e \<Rightarrow> Inl e
                    | Inr t \<Rightarrow>
                       Inr \<lparr>daily_average = py_round daily_avg 2,
                            current_period_cost = py_round current 2,
                            projected_period_end = py_round projected 2,
                            days_remaining = remaining,
                            confidence = conf,
                            trend = t\<rparr>)))"

section \<open>Cost prediction engine: \<^verbatim>\<open>detect_anomalies\<close>\<close>

text \<open>The message of an anomaly is an f-string; the model keeps the values it formats
  (\<open>Cost_spike cost avg_cost\<close> for \<^verbatim>\<open>"Cost spike: ${cost:.2f} vs average ${avg_cost:.2f}"\<close>,
  \<open>Consistent_high_usage\<close> for \<^verbatim>\<open>"Consistent high usage pattern detected"\<close>).\<close>

datatype anomaly_message = Cost_spike real real | Consistent_high_usage

record anomaly =
  an_date :: string
  an_type :: string
  normal_cost :: real
  actual_cost :: real
  severity :: string
  an_message :: anomaly_message

text \<open>\<^verbatim>\<open>usage.index(r)\<close> compares the records as dicts: dict equality does not depend
  on the order of the keys.\<close>

definition dict_eq :: "(string \<times> cost_tokens) list \<Rightarrow> (string \<times> cost_tokens) list \<Rightarrow> bool" where
  "dict_eq a b \<longleftrightarrow> list_all (\<lambda>k. map_of a k = map_of b k) (map fst a @ map fst b)"

definition record_eq :: "daily_record \<Rightarrow> daily_record \<Rightarrow> bool" where
  "record_eq r s \<longleftrightarrow>
     date r = date s \<and> total_cost r = total_cost s \<and> total_tokens r = total_tokens s
   \<and> requests r = requests s
   \<and> dict_eq (by_provider r) (by_provider s) \<and> dict_eq (by_level r) (by_level s)"

fun index_of :: "daily_record list \<Rightarrow> daily_record \<Rightarrow> py_error + nat" where
  "index_of [] r = Inl (ValueError ''x not in list'')"
| "index_of (s # ss) r =
     (if record_eq s r then Inr 0
      else case index_of ss r of Inl e \<Rightarrow> Inl e | Inr i \<Rightarrow> Inr (Suc i))"

text \<open>A list comprehension whose condition may raise.\<close>

fun filter_raise :: "('a \<Rightarrow> py_error + bool) \<Rightarrow> 'a list \<Rightarrow> py_error + 'a list" where
  "filter_raise p [] = Inr []"
| "filter_raise p (x # xs) =
     (case p x of
        Inl e \<Rightarrow> Inl e
      | Inr b \<Rightarrow>
         (case filter_raise p xs of
            Inl e \<Rightarrow> Inl e
          | Inr ys \<Rightarrow> Inr (if b then x # ys else ys)))"

text \<open>\<^verbatim>\<open>[r for r in usage if len(usage) - usage.index(r) <= lookback_days]\<close>\<close>

definition lookback_window :: "daily_record list \<Rightarrow> int \<Rightarrow> py_error + daily_record list" where
  "lookback_window usage lookback_days =
     filter_raise
       (\<lambda>r. case index_of usage r of
               Inl e \<Rightarrow> Inl e
             | Inr i \<Rightarrow> Inr (int (length usage) - int i \<le> lookback_days))
       usage"

text \<open>The two checks of the loop body, for one record; \<open>prev\<close> is \<^verbatim>\<open>daily_costs[i-1]\<close>,
  absent for the first record of the window.\<close>

definition spike_anomaly :: "real \<Rightarrow> real \<Rightarrow> daily_record \<Rightarrow> anomaly list" where
  "spike_anomaly avg_cost sd r =
     (let cost = total_cost r
      in if avg_cost * 2 < cost \<or> (0 < sd \<and> avg_cost + 2 * sd < cost)
         then [\<lparr>an_date = date r, an_type = ''SPIKE'',
                normal_cost = py_round avg_cost 2, actual_cost = py_round cost 2,
                severity = (if avg_cost * 3 < cost then ''HIGH'' else ''MEDIUM''),
                an_message = Cost_spike cost avg_cost\<rparr>]
         else [])"

definition pattern_anomaly :: "real \<Rightarrow> real option \<Rightarrow> daily_record \<Rightarrow> anomaly list" where
  "pattern_anomaly avg_cost prev r =
     (case prev of
        None \<Rightarrow> []
      | Some before \<Rightarrow>
         if avg_cost * 1.5 < total_cost r \<and> avg_cost * 1.5 < before
         then [\<lparr>an_date = date r, an_type = ''UNUSUAL_PATTERN'',
                normal_cost = py_round avg_cost 2, actual_cost = py_round (total_cost r) 2,
                severity = ''MEDIUM'', an_message = Consistent_high_usage\<rparr>]
         else [])"

fun scan_anomalies :: "real \<Rightarrow> real \<Rightarrow> real option \<Rightarrow> daily_record list \<Rightarrow> anomaly list" where
  "scan_anomalies avg_cost sd prev [] = []"
| "scan_anomalies avg_cost sd prev (r # rs) =
     spike_anomaly avg_cost sd r @ pattern_anomaly avg_cost prev r
     @ scan_anomalies avg_cost sd (Some (total_cost r)) rs"

text \<open>The standard deviation as the method computes it: 0 when \<^verbatim>\<open>statistics.stdev\<close>
  raises or when there are fewer than two costs.\<close>

definition guarded_stdev :: "real list \<Rightarrow> real" where
  "guarded_stdev daily_costs =
     (if 2 \<le> length daily_costs
      then (case stdev daily_costs of Inl e \<Rightarrow> 0 | Inr s \<Rightarrow> s)
      else 0)"

definition detect_anomalies ::
  "cost_prediction_engine \<Rightarrow> string \<Rightarrow> int \<Rightarrow> py_error + anomaly list" where
  "detect_anomalies self user_id lookback_days =
     (case user_usage self user_id of
        None \<Rightarrow> Inr []
      | Some usage \<Rightarrow>
         if usage = [] then Inr []
         else
           (case lookback_window usage lookback_days of
              Inl e \<Rightarrow> Inl e
            | Inr recent \<Rightarrow>
               if length recent < 2 then Inr []
               else
                 let daily_costs = map total_cost recent
                 in (case mean daily_costs of
                      Inl e \<Rightarrow> Inl e
                    | Inr avg_cost \<Rightarrow>
                       Inr (scan_anomalies avg_cost (guarded_stdev daily_costs) None recent))))"

section \<open>Cost prediction engine: \<^verbatim>\<open>recommend_cost_reduction\<close>\<close>

text \<open>The recommendation dicts, one constructor per \<^verbatim>\<open>'type'\<close>:
  \<open>DIVERSIFY_PROVIDERS provider current_percentage potential_savings\<close>,
  \<open>SWITCH_OPTIMIZATION_LEVEL current_percentage potential_savings\<close>,
  \<open>INCREASE_OPTIMIZATION potential_savings\<close> and
  \<open>BUDGET_ALERT daily_average monthly_projection potential_savings\<close>; the other keys hold
  constants or strings formatted from these values.\<close>

datatype cost_recommendation =
    DIVERSIFY_PROVIDERS string real real
  | SWITCH_OPTIMIZATION_LEVEL real real
  | INCREASE_OPTIMIZATION real
  | BUDGET_ALERT real real real

text \<open>\<^verbatim>\<open>max(items, key=lambda x: x[1])\<close> on a non-empty sequence: the first maximal item.\<close>

fun max_by_cost :: "string \<times> real \<Rightarrow> (string \<times> real) list \<Rightarrow> string \<times> real" where
  "max_by_cost best [] = best"
| "max_by_cost best (x # xs) = max_by_cost (if snd best < snd x then x else best) xs"

definition diversify_providers ::
  "(string \<times> cost_tokens) list option \<Rightarrow> py_error + cost_recommendation list" where
  "diversify_providers by_provider_arg =
     (case by_provider_arg of
        None \<Rightarrow> Inr []
      | Some d \<Rightarrow>
         (case map (\<lambda>(p, data). (p, ct_cost data)) d of
            [] \<Rightarrow> Inr []
          | x # xs \<Rightarrow>
             let most_expensive = max_by_cost x xs;
                 total_all = sum_list (map snd (x # xs))
             in (case py_div (snd most_expensive) total_all of
                  Inl e \<Rightarrow> Inl e
                | Inr share \<Rightarrow>
                   if 0.5 < share
                   then Inr [DIVERSIFY_PROVIDERS (fst most_expensive)
                               (py_round (share * 100) 1)
                               (py_round (snd most_expensive * 0.1) 2)]
                   else Inr [])))"

text \<open>The dict \<^verbatim>\<open>level_stats\<close> built by the loop over the records and their
  \<^verbatim>\<open>by_level\<close> items.\<close>

definition level_stats :: "daily_record list \<Rightarrow> (string \<times> cost_tokens) list" where
  "level_stats usage =
     foldl (\<lambda>acc r. foldl (\<lambda>acc' (lvl, stats). add_usage lvl (ct_cost stats) (ct_tokens stats) acc')
                       acc (by_level r))
       [] usage"

definition level_percentage :: "real \<Rightarrow> real \<Rightarrow> real" where
  "level_percentage level_cost total_all = (if 0 < total_all then (level_cost / total_all) * 100 else 0)"

definition switch_optimization_level :: "daily_record list \<Rightarrow> cost_recommendation list" where
  "switch_optimization_level usage =
     (let total_all = sum_list (map total_cost usage)
      in case map_of (level_stats usage) ''aggressive'' of
           None \<Rightarrow> []
         | Some a \<Rightarrow>
            let aggressive_pct = level_percentage (ct_cost a) total_all
            in if 30 < aggressive_pct
               then [SWITCH_OPTIMIZATION_LEVEL (py_round aggressive_pct 1)
                       (py_round (total_all * 0.05) 2)]
               else [])"

definition increase_optimization :: "daily_record list \<Rightarrow> cost_recommendation list" where
  "increase_optimization usage =
     (let total_all = sum_list (map total_cost usage)
      in case map_of (level_stats usage) ''balanced'' of
           None \<Rightarrow> []
         | Some b \<Rightarrow>
            (case map_of (level_stats usage) ''aggressive'' of
               None \<Rightarrow> []
             | Some a \<Rightarrow>
                if 70 < level_percentage (ct_cost b) total_all
                then [INCREASE_OPTIMIZATION (py_round (total_all * 0.14) 2)]
                else []))"

definition budget_alert :: "daily_record list \<Rightarrow> py_error + cost_recommendation list" where
  "budget_alert usage =
     (if 7 \<le> length usage then
        (case mean (map total_cost (drop (length usage - 7) usage)) of
           Inl e \<Rightarrow> Inl e
         | Inr daily_avg \<Rightarrow>
            if 10 < daily_avg
            then Inr [BUDGET_ALERT (py_round daily_avg 2) (py_round (daily_avg * 30) 2)
                        (py_round (daily_avg * 30 * 0.1) 2)]
            else Inr [])
      else Inr [])"

definition recommend_cost_reduction ::
  "cost_prediction_engine \<Rightarrow> string \<Rightarrow> (string \<times> cost_tokens) list option
     \<Rightarrow> py_error + cost_recommendation list" where
  "recommend_cost_reduction self user_id by_provider_arg =
     (case user_usage self user_id of
        None \<Rightarrow> Inr []
      | Some usage \<Rightarrow>
         if usage = [] then Inr []
         else
           (case diversify_providers by_provider_arg of
              Inl e \<Rightarrow> Inl e
            | Inr diversify \<Rightarrow>
               (case budget_alert usage of
                  Inl e \<Rightarrow> Inl e
                | Inr alert \<Rightarrow>
                   Inr (diversify @ switch_optimization_level usage
                        @ increase_optimization usage @ alert))))"

section \<open>Cost prediction engine: \<^verbatim>\<open>get_efficiency_score\<close>\<close>

record efficiency_breakdown =
  bd_cost_per_token :: int
  bd_optimization_usage :: int
  bd_trend :: int

text \<open>The dict returned: \<open>breakdown = None\<close> is the empty dict of the no-data answer,
  and the keys \<^verbatim>\<open>'cost_per_token'\<close> and \<^verbatim>\<open>'total_tokens_analyzed'\<close> are absent from that
  answer.\<close>

record efficiency_score =
  score :: int
  eff_message :: string
  breakdown :: "efficiency_breakdown option"
  eff_cost_per_token :: "real option"
  total_tokens_analyzed :: "int option"

definition get_efficiency_message :: "int \<Rightarrow> string" where
  "get_efficiency_message s =
     (if 90 \<le> s then ''Excellent cost efficiency! Keep it up.''
      else if 75 \<le> s then ''Good cost efficiency. Some minor optimizations possible.''
      else if 50 \<le> s then ''Average cost efficiency. Review recommendations.''
      else ''Low cost efficiency. Consider optimization strategies.'')"

text \<open>The first block: the pair of \<^verbatim>\<open>cost_per_token_score\<close> and the local variable
  \<^verbatim>\<open>cost_per_token\<close>, which is assigned in the \<^verbatim>\<open>else\<close> branch only (\<open>None\<close>: unbound).\<close>

definition cost_per_token_score :: "real \<Rightarrow> int \<Rightarrow> real \<times> real option" where
  "cost_per_token_score total_all total_tok =
     (if total_tok = 0 then (50, None)
      else
        let cpt = total_all / real_of_int total_tok;
            optimal_cost_per_token = 0.00003
        in (if cpt \<le> optimal_cost_per_token * 1.5 then 100
            else if cpt \<le> optimal_cost_per_token * 2 then 80
            else max 0 (100 - (cpt / optimal_cost_per_token) * 10),
            Some cpt))"

fun add_cost :: "string \<Rightarrow> real \<Rightarrow> (string \<times> real) list \<Rightarrow> (string \<times> real) list" where
  "add_cost k c [] = [(k, 0 + c)]"
| "add_cost k c ((k', v) # d) =
     (if k' = k then (k', v + c) # d else (k', v) # add_cost k c d)"

definition level_usage :: "daily_record list \<Rightarrow> (string \<times> real) list" where
  "level_usage usage =
     foldl (\<lambda>acc r. foldl (\<lambda>acc' (lvl, stats). add_cost lvl (ct_cost stats) acc') acc (by_level r))
       [] usage"

definition optimization_score :: "daily_record list \<Rightarrow> real \<Rightarrow> int" where
  "optimization_score usage total_all =
     (case map_of (level_usage usage) ''aggressive'' of
        Some aggressive \<Rightarrow> py_int ((if 0 < total_all then aggressive / total_all else 0) * 100)
      | None \<Rightarrow> 50)"

text \<open>\<^verbatim>\<open>usage[-7:]\<close> are the last 7 records and \<^verbatim>\<open>usage[-14:-7]\<close> the 7 before them.\<close>

definition trend_score :: "daily_record list \<Rightarrow> int" where
  "trend_score usage =
     (if 7 \<le> length usage then
        let recent = sum_list (map total_cost (drop (length usage - 7) usage)) / 7;
            older = (if 14 \<le> length usage
                     then sum_list (map total_cost (take 7 (drop (length usage - 14) usage))) / 7
                     else recent)
        in if recent < older * 0.9 then 100
           else if recent < older * 1.1 then 75
           else 50
      else 75)"

definition get_efficiency_score ::
  "cost_prediction_engine \<Rightarrow> string \<Rightarrow> py_error + efficiency_score" where
  "get_efficiency_score self user_id =
     (case user_usage self user_id of
        None \<Rightarrow>
          Inr \<lparr>score = 0, eff_message = ''Not enough data'', breakdown = None,
               eff_cost_per_token = None, total_tokens_analyzed = None\<rparr>
      | Some usage \<Rightarrow>
         if usage = []
         then Inr \<lparr>score = 0, eff_message = ''Not enough data'', breakdown = None,
                   eff_cost_per_token = None, total_tokens_analyzed = None\<rparr>
         else
           let total_all = sum_list (map total_cost usage);
               total_tok = sum_list (map total_tokens usage);
               (cpt_score, cost_per_token_var) = cost_per_token_score total_all total_tok;
               opt_score = optimization_score usage total_all;
               tr_score = trend_score usage;
               overall_score = py_int (cpt_score * 0.4 + real_of_int opt_score * 0.3
                                       + real_of_int tr_score * 0.3)
           in (case cost_per_token_var of
                None \<Rightarrow> Inl UnboundLocalError
              | Some cpt \<Rightarrow>
                 Inr \<lparr>score = min 100 overall_score,
                      eff_message = get_efficiency_message overall_score,
                      breakdown = Some \<lparr>bd_cost_per_token = py_int cpt_score,
                                         bd_optimization_usage = opt_score,
                                         bd_trend = tr_score\<rparr>,
                      eff_cost_per_token = Some cpt,
                      total_tokens_analyzed = Some total_tok\<rparr>))"

section \<open>Cost prediction engine: the float additions of \<^verbatim>\<open>record_usage\<close>\<close>

text \<open>The costs are Python floats, that is IEEE 754 binary64 values.  A finite binary64
  value is a real \<open>m \<times> 2\<^sup>e\<close> with an integer \<open>m\<close> of at most 53 bits and \<open>e \<ge> -1074\<close>.
  The exponent of the last bit of the binary64 values around \<open>x\<close>: 52 below the exponent
  of the leading bit of \<open>x\<close>, and \<open>-1074\<close> in the subnormal range.\<close>

definition binary64_exponent :: "real \<Rightarrow> int" where
  "binary64_exponent x = max (- 1074) (bitlen \<lfloor>\<bar>x\<bar> * 2 ^ 1074\<rfloor> - 1127)"

text \<open>Rounding to the nearest binary64 value, ties to the even significand: what a float
  literal and a float operation return for an exact value \<open>x\<close>.  Results beyond the
  largest finite value, where Python returns \<^verbatim>\<open>inf\<close>, are not modelled.\<close>

definition round_binary64 :: "real \<Rightarrow> real" where
  "round_binary64 x =
     (let e = binary64_exponent x
      in of_int (round_half_even (x / 2 powi e)) * 2 powi e)"

text \<open>\<^verbatim>\<open>x + y\<close> on floats.\<close>

definition float_add :: "real \<Rightarrow> real \<Rightarrow> real" where
  "float_add x y = round_binary64 (x + y)"

text \<open>\<^verbatim>\<open>record_usage\<close> with the addition of its three \<^verbatim>\<open>+= cost\<close> statements as a
  parameter: \<open>add\<close> is the addition performed on \<^verbatim>\<open>total_cost\<close> and on the \<^verbatim>\<open>'cost'\<close>
  entries of \<^verbatim>\<open>by_provider\<close> and \<^verbatim>\<open>by_level\<close>; the token counts are Python ints and
  add exactly.  The running program is the instance \<open>float_add\<close>; \<open>record_usage\<close> above
  is the instance with the exact addition of the reals.\<close>

fun add_usage_with ::
  "(real \<Rightarrow> real \<Rightarrow> real) \<Rightarrow> string \<Rightarrow> real \<Rightarrow> int \<Rightarrow> (string \<times> cost_tokens) list
     \<Rightarrow> (string \<times> cost_tokens) list" where
  "add_usage_with add k c t [] = [(k, \<lparr>ct_cost = add 0 c, ct_tokens = 0 + t\<rparr>)]"
| "add_usage_with add k c t ((k', v) # d) =
     (if k' = k then (k', \<lparr>ct_cost = add (ct_cost v) c, ct_tokens = ct_tokens v + t\<rparr>) # d
      else (k', v) # add_usage_with add k c t d)"

definition update_record_with ::
  "(real \<Rightarrow> real \<Rightarrow> real) \<Rightarrow> string \<Rightarrow> string \<Rightarrow> int \<Rightarrow> real \<Rightarrow> string \<Rightarrow> daily_record
     \<Rightarrow> daily_record" where
  "update_record_with add timestamp provider tokens_used cost optimization_level r =
     r\<lparr>total_cost := add (total_cost r) cost,
       total_tokens := total_tokens r + tokens_used,
       requests := requests r @
          [\<lparr>req_timestamp = timestamp, req_provider = provider, req_tokens = tokens_used,
            req_cost = cost, req_level = optimization_level\<rparr>],
       by_provider := add_usage_with add provider cost tokens_used (by_provider r),
       by_level := add_usage_with add optimization_level cost tokens_used (by_level r)\<rparr>"

definition record_usage_with ::
  "(real \<Rightarrow> real \<Rightarrow> real) \<Rightarrow> cost_prediction_engine \<Rightarrow> string \<Rightarrow> string \<Rightarrow> string \<Rightarrow> string
     \<Rightarrow> int \<Rightarrow> real \<Rightarrow> string \<Rightarrow> cost_prediction_engine" where
  "record_usage_with add self today timestamp user_id provider tokens_used cost
       optimization_level =
     (if \<not> cp_learning_enabled self then self
      else
        let usage = (case user_usage self user_id of None \<Rightarrow> [] | Some u \<Rightarrow> u)
        in self\<lparr>user_usage := (user_usage self)(user_id \<mapsto>
               update_today today
                 (update_record_with add timestamp provider tokens_used cost optimization_level)
                 usage)\<rparr>)"

section \<open>Definitions used to state the properties\<close>

text \<open>A recommendation with its \<open>rank\<close> field blanked: what is left is everything the
  affordability gate cannot touch.\<close>

definition without_rank :: "recommendation \<Rightarrow> recommendation" where
  "without_rank r = r\<lparr>rank := 0\<rparr>"

text \<open>The ledger of a user: empty when the user is unknown.\<close>

definition ledger :: "cost_prediction_engine \<Rightarrow> string \<Rightarrow> daily_record list" where
  "ledger self user_id = (case user_usage self user_id of None \<Rightarrow> [] | Some u \<Rightarrow> u)"

text \<open>The sums over the values of a \<^verbatim>\<open>by_provider\<close> or \<^verbatim>\<open>by_level\<close> dict.\<close>

definition sum_cost :: "(string \<times> cost_tokens) list \<Rightarrow> real" where
  "sum_cost d = sum_list (map (\<lambda>kv. ct_cost (snd kv)) d)"

definition sum_tokens :: "(string \<times> cost_tokens) list \<Rightarrow> int" where
  "sum_tokens d = sum_list (map (\<lambda>kv. ct_tokens (snd kv)) d)"

text \<open>The additivity invariant of a daily record: the totals are the sums over the
  recorded requests, the sub-totals per provider and per level sum to the totals, and
  the two dicts have no repeated key.\<close>

definition additive :: "daily_record \<Rightarrow> bool" where
  "additive r \<longleftrightarrow>
     total_cost r = sum_list (map req_cost (requests r))
   \<and> total_tokens r = sum_list (map req_tokens (requests r))
   \<and> sum_cost (by_provider r) = total_cost r
   \<and> sum_tokens (by_provider r) = total_tokens r
   \<and> sum_cost (by_level r) = total_cost r
   \<and> sum_tokens (by_level r) = total_tokens r
   \<and> distinct (map fst (by_provider r))
   \<and> distinct (map fst (by_level r))"

text \<open>The record \<^verbatim>\<open>record_usage\<close> finds for a date, if any.\<close>

definition todays_record :: "string \<Rightarrow> daily_record list \<Rightarrow> daily_record option" where
  "todays_record today usage = find (\<lambda>r. date r = today) usage"

text \<open>A sequence of \<^verbatim>\<open>record_usage\<close> calls for one user on one day, one call per
  request, in order.\<close>

definition record_request ::
  "string \<Rightarrow> string \<Rightarrow> cost_prediction_engine \<Rightarrow> usage_request \<Rightarrow> cost_prediction_engine" where
  "record_request today user_id self q =
     record_usage self today (req_timestamp q) user_id (req_provider q) (req_tokens q)
       (req_cost q) (req_level q)"

definition record_all ::
  "cost_prediction_engine \<Rightarrow> string \<Rightarrow> string \<Rightarrow> usage_request list \<Rightarrow> cost_prediction_engine" where
  "record_all self today user_id reqs = foldl (record_request today user_id) self reqs"

text \<open>The state of a day in a ledger: the record of that date, or a new one when there
  is none yet; and the update one request makes to it.\<close>

definition day_state :: "string \<Rightarrow> daily_record list \<Rightarrow> daily_record" where
  "day_state today usage =
     (case todays_record today usage of None \<Rightarrow> new_daily_record today | Some r \<Rightarrow> r)"

definition apply_request :: "daily_record \<Rightarrow> usage_request \<Rightarrow> daily_record" where
  "apply_request r q =
     update_record (req_timestamp q) (req_provider q) (req_tokens q) (req_cost q) (req_level q) r"

text \<open>The same sequence of calls, the update of one request and the state of a day, for
  \<^verbatim>\<open>record_usage\<close> with a given addition of costs.\<close>

definition record_request_with ::
  "(real \<Rightarrow> real \<Rightarrow> real) \<Rightarrow> string \<Rightarrow> string \<Rightarrow> cost_prediction_engine \<Rightarrow> usage_request
     \<Rightarrow> cost_prediction_engine" where
  "record_request_with add today user_id self q =
     record_usage_with add self today (req_timestamp q) user_id (req_provider q) (req_tokens q)
       (req_cost q) (req_level q)"

definition record_all_with ::
  "(real \<Rightarrow> real \<Rightarrow> real) \<Rightarrow> cost_prediction_engine \<Rightarrow> string \<Rightarrow> string \<Rightarrow> usage_request list
     \<Rightarrow> cost_prediction_engine" where
  "record_all_with add self today user_id reqs =
     foldl (record_request_with add today user_id) self reqs"

definition apply_request_with ::
  "(real \<Rightarrow> real \<Rightarrow> real) \<Rightarrow> daily_record \<Rightarrow> usage_request \<Rightarrow> daily_record" where
  "apply_request_with add r q =
     update_record_with add (req_timestamp q) (req_provider q) (req_tokens q) (req_cost q)
       (req_level q) r"

text \<open>What repeated \<^verbatim>\<open>+=\<close> from 0 computes: the costs added one by one, in order.\<close>

definition accumulate :: "(real \<Rightarrow> real \<Rightarrow> real) \<Rightarrow> real list \<Rightarrow> real" where
  "accumulate add costs = foldl add 0 costs"

text \<open>The requests recorded under one key (a provider or a level), and the sub-total
  that \<^verbatim>\<open>record_usage\<close> keeps for that key: the costs of those requests added one by
  one, and the sum of their tokens.\<close>

definition requests_for ::
  "(usage_request \<Rightarrow> string) \<Rightarrow> string \<Rightarrow> usage_request list \<Rightarrow> usage_request list" where
  "requests_for key k reqs = filter (\<lambda>q. key q = k) reqs"

definition sub_total ::
  "(real \<Rightarrow> real \<Rightarrow> real) \<Rightarrow> (usage_request \<Rightarrow> string) \<Rightarrow> string \<Rightarrow> usage_request list
     \<Rightarrow> cost_tokens" where
  "sub_total add key k reqs =
     \<lparr>ct_cost = accumulate add (map req_cost (requests_for key k reqs)),
      ct_tokens = sum_list (map req_tokens (requests_for key k reqs))\<rparr>"

text \<open>A \<^verbatim>\<open>by_provider\<close> or \<^verbatim>\<open>by_level\<close> dict holds the sub-totals of a list of requests:
  its keys are the keys of the requests, each once, and each key maps to its sub-total.\<close>

definition sub_totals ::
  "(real \<Rightarrow> real \<Rightarrow> real) \<Rightarrow> (usage_request \<Rightarrow> string) \<Rightarrow> (string \<times> cost_tokens) list
     \<Rightarrow> usage_request list \<Rightarrow> bool" where
  "sub_totals add key d reqs \<longleftrightarrow>
     distinct (map fst d)
   \<and> set (map fst d) = key ` set reqs
   \<and> (\<forall>k \<in> key ` set reqs. map_of d k = Some (sub_total add key k reqs))"

text \<open>The invariant of a daily record under a given addition of costs: the totals and the
  sub-totals are what the recorded requests accumulate to, and the token sub-totals sum
  to the token total.\<close>

definition accumulated :: "(real \<Rightarrow> real \<Rightarrow> real) \<Rightarrow> daily_record \<Rightarrow> bool" where
  "accumulated add r \<longleftrightarrow>
     total_cost r = accumulate add (map req_cost (requests r))
   \<and> total_tokens r = sum_list (map req_tokens (requests r))
   \<and> sub_totals add req_provider (by_provider r) (requests r)
   \<and> sub_totals add req_level (by_level r) (requests r)
   \<and> sum_tokens (by_provider r) = total_tokens r
   \<and> sum_tokens (by_level r) = total_tokens r"

text \<open>The spike rule in the words of the specification: the average and the sample
  standard deviation of the costs in the window, the condition for a spike, and its
  severity.\<close>

definition window_average :: "real list \<Rightarrow> real" where
  "window_average costs = sum_list costs / real (length costs)"

definition window_stdev :: "real list \<Rightarrow> real" where
  "window_stdev costs =
     sqrt (sum_list (map (\<lambda>x. (x - window_average costs)\<^sup>2) costs) / real (length costs - 1))"




section \<open>Concrete engines and inputs used in the examples\<close>

text \<open>A provider engine in which \<open>openai\<close> has been calibrated once.\<close>

definition calibrated_engine :: provider_intelligence where
  "calibrated_engine =
     \<lparr>user_history = Map.empty,
      provider_calibration =
        [''openai'' \<mapsto> \<lparr>token_ratio = 23 / 20, sample_count = 1, cost_per_token = 1 / 500\<rparr>],
      pi_learning_enabled = True\<rparr>"

text \<open>Preferences with priority \<open>cost\<close> and a given budget limit, and a text of 4000
  characters.\<close>

definition budget_prefs :: "real \<Rightarrow> user_preferences" where
  "budget_prefs b = \<lparr>priority = Some ''cost'', budget_limit = Some b\<rparr>"

definition long_text :: string where
  "long_text = replicate 4000 (CHR ''a'')"

text \<open>An engine built by \<^verbatim>\<open>record_usage\<close> alone: user \<open>u1\<close> makes one request a day,
  of 1000 tokens, at the given dates and costs.\<close>

definition engine_with_costs :: "(string \<times> real) list \<Rightarrow> cost_prediction_engine" where
  "engine_with_costs days =
     foldl (\<lambda>s (d, c). record_usage s d (d @ ''T12:00:00'') ''u1'' ''openai'' 1000 c ''balanced'')
       CostPredictionEngine_init days"

text \<open>The first ten days of January 2026, paired with costs, and the clock of the tenth.\<close>

definition january :: "real list \<Rightarrow> (string \<times> real) list" where
  "january costs =
     zip [''2026-01-01'', ''2026-01-02'', ''2026-01-03'', ''2026-01-04'', ''2026-01-05'',
          ''2026-01-06'', ''2026-01-07'', ''2026-01-08'', ''2026-01-09'', ''2026-01-10''] costs"

definition jan_10 :: clock where
  "jan_10 = \<lparr>now_date = ''2026-01-10'', now_month = 1, now_day = 10\<rparr>"

text \<open>The record that one request of user \<open>u1\<close> in \<open>engine_with_costs\<close> makes of a day.\<close>

definition day_record :: "string \<Rightarrow> real \<Rightarrow> daily_record" where
  "day_record d c =
     update_record (d @ ''T12:00:00'') ''openai'' 1000 c ''balanced'' (new_daily_record d)"


text \<open>Three requests of one user on one day.\<close>

definition three_requests :: "usage_request list" where
  "three_requests =
     [\<lparr>req_timestamp = ''2026-01-05T09:00:00'', req_provider = ''openai'', req_tokens = 1000,
       req_cost = 3 / 100, req_level = ''balanced''\<rparr>,
      \<lparr>req_timestamp = ''2026-01-05T10:00:00'', req_provider = ''groq'', req_tokens = 400,
       req_cost = 1 / 100, req_level = ''aggressive''\<rparr>,
      \<lparr>req_timestamp = ''2026-01-05T11:00:00'', req_provider = ''openai'', req_tokens = 600,
       req_cost = 2 / 100, req_level = ''aggressive''\<rparr>]"

text \<open>The same three requests with their costs as floats (the literals \<^verbatim>\<open>0.03\<close>,
  \<^verbatim>\<open>0.01\<close> and \<^verbatim>\<open>0.02\<close>), and the record of the day after the three calls in float
  arithmetic.\<close>

definition float_requests :: "usage_request list" where
  "float_requests = map (\<lambda>q. q\<lparr>req_cost := round_binary64 (req_cost q)\<rparr>) three_requests"

definition float_day :: daily_record where
  "float_day =
     day_state ''2026-01-05''
       (ledger (record_all_with float_add CostPredictionEngine_init ''2026-01-05'' ''u1''
                  float_requests) ''u1'')"

text \<open>An engine whose only user has one request of 0 tokens and cost 0.\<close>

definition zero_token_engine :: cost_prediction_engine where
  "zero_token_engine =
     record_usage CostPredictionEngine_init ''2026-01-01'' ''2026-01-01T12:00:00'' ''u1''
       ''openai'' 0 0 ''balanced''"

section \<open>Properties of \<^verbatim>\<open>estimate_provider_tokens\<close>\<close>

lemma py_int_0: "py_int 0 = 0"
  by (simp add: py_int_def)

lemma calibrated_input_tokens_short:
  assumes "length txt < 4"
  shows "calibrated_input_tokens self txt provider = 0"
  using assms by (simp add: calibrated_input_tokens_def py_int_0 split: option.splits)

lemma first_model_known:
  assumes "first_model cfg = Inr m"
  shows "map_of (models cfg) m \<noteq> None"
  using assms by (auto simp: first_model_def split: list.splits)

lemma first_model_PROVIDERS:
  assumes "map_of PROVIDERS provider = Some cfg"
  shows "\<exists>m. first_model cfg = Inr m"
  using assms by (auto simp: PROVIDERS_def first_model_def split: if_splits)

text \<open>
  Claim C2 says that \<^verbatim>\<open>estimate_provider_tokens\<close> returns normally for every text,
  the empty one and those shorter than 4 characters included.  The code does the
  opposite there: for every provider of the table, with the default model or any model
  of that provider, and whatever the calibration, a text of fewer than 4 characters has
  0 estimated tokens and the unguarded division for \<^verbatim>\<open>cost_per_1k_tokens\<close> raises
  \<^verbatim>\<open>ZeroDivisionError\<close>.
\<close>

theorem estimate_provider_tokens_short_text_raises:
  assumes "map_of PROVIDERS provider = Some cfg"
    and "model = None \<or> (\<exists>m. model = Some m \<and> map_of (models cfg) m \<noteq> None)"
    and "length txt < 4"
  shows "estimate_provider_tokens self txt provider model = Inl ZeroDivisionError"
proof -
  obtain m where m: "(case model of None \<Rightarrow> first_model cfg | Some m \<Rightarrow> Inr m) = Inr m"
    and known: "map_of (models cfg) m \<noteq> None"
  proof (cases model)
    case None
    from first_model_PROVIDERS [OF assms(1)] obtain m where "first_model cfg = Inr m" ..
    with None first_model_known that show ?thesis by simp
  next
    case (Some m)
    with assms(2) that show ?thesis by auto
  qed
  have tin: "calibrated_input_tokens self txt provider = 0"
    by (rule calibrated_input_tokens_short [OF assms(3)])
  show ?thesis
    using assms(1) m known
    by (simp add: estimate_provider_tokens_def tin py_int_0 py_div_def)
qed

theorem estimate_provider_tokens_empty_text_raises:
  "estimate_provider_tokens ProviderIntelligence_init '''' ''openai'' None
     = Inl ZeroDivisionError"
proof -
  have "map_of PROVIDERS ''openai'' = Some (snd (hd PROVIDERS))"
    by (simp add: PROVIDERS_def)
  then show ?thesis
    by (rule estimate_provider_tokens_short_text_raises) simp_all
qed

section \<open>Properties of \<^verbatim>\<open>get_provider_recommendations\<close>\<close>

subsection \<open>Loops and sorting\<close>

lemma map_raise_length:
  "map_raise f xs = Inr ys \<Longrightarrow> length ys = length xs"
  by (induction xs arbitrary: ys) (auto split: sum.splits)

lemma map_raise_member:
  "map_raise f xs = Inr ys \<Longrightarrow> y \<in> set ys \<Longrightarrow> \<exists>x \<in> set xs. f x = Inr y"
  by (induction xs arbitrary: ys) (auto split: sum.splits)

lemma map_raise_related:
  assumes "map_raise f xs = Inr ys" and "map_raise f' xs = Inr ys'"
    and "\<And>x y y'. f x = Inr y \<Longrightarrow> f' x = Inr y' \<Longrightarrow> e y' = e y"
  shows "map e ys' = map e ys"
  using assms(1,2)
proof (induction xs arbitrary: ys ys')
  case Nil
  then show ?case by simp
next
  case (Cons x xs)
  then show ?case by (auto split: sum.splits dest: assms(3))
qed

lemma map_raise_map_key:
  assumes "\<And>x. key (g x) = key x"
  shows "map_raise key (map g xs) = map_raise key xs"
  by (induction xs) (auto simp: assms split: sum.splits)

lemma insort_key_map_same_key:
  assumes "\<And>x. f' (g x) = f x"
  shows "map g (insort_key f x xs) = insort_key f' (g x) (map g xs)"
  by (induction xs) (simp_all add: assms)

lemma sort_key_map_same_key:
  assumes "\<And>x. f' (g x) = f x"
  shows "map g (sort_key f xs) = sort_key f' (map g xs)"
  by (induction xs) (simp_all add: insort_key_map_same_key [of f' g f, OF assms])

lemma map_snd_sort_key_apsnd:
  "map snd (sort_key fst (map (apsnd g) ps)) = map g (map snd (sort_key fst ps))"
proof -
  have "sort_key fst (map (apsnd g) ps) = map (apsnd g) (sort_key fst ps)"
    by (rule sort_key_map_same_key [symmetric]) simp
  then show ?thesis by (simp add: comp_def)
qed

lemma py_sort_map:
  assumes "\<And>x. key (g x) = key x"
  shows "py_sort key rv (map g xs) = map_sum id (map g) (py_sort key rv xs)"
proof (cases "map_raise key xs")
  case (Inl e)
  then show ?thesis by (simp add: py_sort_def map_raise_map_key [of key g, OF assms])
next
  case (Inr ks)
  have z: "zip ks (map g xs) = map (apsnd g) (zip ks xs)"
    by (simp add: zip_map2 apsnd_def map_prod_def)
  have fwd: "map snd (sort_key fst (zip ks (map g xs))) = map g (map snd (sort_key fst (zip ks xs)))"
    unfolding z by (rule map_snd_sort_key_apsnd)
  have "map snd (sort_key fst (rev (zip ks (map g xs))))
          = map g (map snd (sort_key fst (rev (zip ks xs))))"
    unfolding z by (simp only: rev_map map_snd_sort_key_apsnd)
  then have bwd: "map snd (rev (sort_key fst (rev (zip ks (map g xs)))))
          = map g (map snd (rev (sort_key fst (rev (zip ks xs)))))"
    by (metis rev_map)
  show ?thesis
    using Inr fwd bwd
    by (simp add: py_sort_def map_raise_map_key [of key g, OF assms])
qed

lemma set_map_snd_zip: "set (map snd (zip ks xs)) \<subseteq> set xs"
  by (auto elim: in_set_zipE)

lemma py_sort_set:
  assumes "py_sort key rv xs = Inr ys"
  shows "set ys \<subseteq> set xs"
proof -
  from assms obtain ks where "map_raise key xs = Inr ks"
    by (cases "map_raise key xs") (simp_all add: py_sort_def)
  with assms have ys: "ys = map snd (if rv then rev (sort_key fst (rev (zip ks xs)))
                       else sort_key fst (zip ks xs))"
    by (simp add: py_sort_def)
  have "set ys = set (map snd (zip ks xs))"
    unfolding ys by simp
  then show ?thesis using set_map_snd_zip by metis
qed

lemma py_sort_length:
  assumes "py_sort key rv xs = Inr ys"
  shows "length ys = length xs"
  using assms
  by (auto simp: py_sort_def split: sum.splits if_splits dest: map_raise_length)


subsection \<open>The affordability gate\<close>

lemma get_provider_recommendations_unfold:
  "get_provider_recommendations self txt user_prefs =
     (case map_raise (recommend_provider self txt (effective_preferences user_prefs)) (map fst PROVIDERS) of
           Inl e \<Rightarrow> Inl e
         | Inr recs \<Rightarrow>
            (case sort_recommendations (effective_preferences user_prefs) recs of
               Inl e \<Rightarrow> Inl e
             | Inr sorted_recs \<Rightarrow> Inr (take 3 sorted_recs)))"
  by (simp add: get_provider_recommendations_def Let_def)

lemma calculate_rank_over_budget:
  assumes "calculate_rank est prefs = Inr rk" and "get_budget_limit prefs < cost_usd est"
  shows "rk = 0"
  using assms by (simp add: calculate_rank_def Let_def)

lemma recommend_provider_over_budget:
  assumes "recommend_provider self txt prefs provider = Inr r"
    and "get_budget_limit prefs < rec_cost_usd r"
  shows "rank r = 0"
  using assms
  by (auto simp: recommend_provider_def split: sum.splits dest: calculate_rank_over_budget)

lemma get_priority_budget_update [simp]:
  "get_priority (prefs\<lparr>budget_limit := b\<rparr>) = get_priority prefs"
  by (simp add: get_priority_def)

lemma get_recommendation_badge_budget_update [simp]:
  "get_recommendation_badge est (prefs\<lparr>budget_limit := b\<rparr>) = get_recommendation_badge est prefs"
  by (simp add: get_recommendation_badge_def)

lemma sort_recommendations_budget_update [simp]:
  "sort_recommendations (prefs\<lparr>budget_limit := b\<rparr>) recs = sort_recommendations prefs recs"
  by (simp add: sort_recommendations_def)

lemma recommend_provider_budget_update:
  assumes "recommend_provider self txt prefs provider = Inr r"
    and "recommend_provider self txt (prefs\<lparr>budget_limit := b\<rparr>) provider = Inr r'"
  shows "without_rank r' = without_rank r"
  using assms
  by (auto simp: recommend_provider_def without_rank_def split: sum.splits)

lemma sort_recommendations_without_rank:
  "sort_recommendations prefs (map without_rank recs)
     = map_sum id (map without_rank) (sort_recommendations prefs recs)"
  unfolding sort_recommendations_def Let_def
  by (simp add: py_sort_map without_rank_def)

lemma sort_recommendations_set:
  assumes "sort_recommendations prefs recs = Inr ys"
  shows "set ys \<subseteq> set recs"
  using assms unfolding sort_recommendations_def Let_def
  by (auto split: if_splits dest: py_sort_set)

lemma sort_recommendations_length:
  assumes "sort_recommendations prefs recs = Inr ys"
  shows "length ys = length recs"
  using assms unfolding sort_recommendations_def Let_def
  by (auto split: if_splits dest: py_sort_length)

text \<open>
  Claim C6.  Whenever \<^verbatim>\<open>get_provider_recommendations\<close> returns a list, every returned
  entry whose \<open>cost_usd\<close> exceeds the budget limit in force has \<open>rank = 0\<close>; the list
  still has its 3 entries; and the budget limit does not decide which entries are
  returned or in which order: the call with any other budget limit (or none), if it
  returns, returns the same entries in the same order, up to their \<open>rank\<close> fields.
\<close>

theorem get_provider_recommendations_budget_gate:
  assumes "get_provider_recommendations self txt user_prefs = Inr recs"
  shows "(\<forall>r \<in> set recs.
            get_budget_limit (effective_preferences user_prefs) < rec_cost_usd r \<longrightarrow> rank r = 0)
       \<and> length recs = 3
       \<and> (\<forall>b recs'.
            get_provider_recommendations self txt
              (Some ((effective_preferences user_prefs)\<lparr>budget_limit := b\<rparr>)) = Inr recs'
            \<longrightarrow> map without_rank recs' = map without_rank recs)"
proof -
  let ?prefs = "effective_preferences user_prefs"
  from assms obtain all_recs sorted_recs
    where loop: "map_raise (recommend_provider self txt ?prefs) (map fst PROVIDERS) = Inr all_recs"
      and sorted: "sort_recommendations ?prefs all_recs = Inr sorted_recs"
      and recs: "recs = take 3 sorted_recs"
    by (auto simp: get_provider_recommendations_unfold split: sum.splits)
  have gate: "rank r = 0"
    if "r \<in> set recs" and "get_budget_limit ?prefs < rec_cost_usd r" for r
  proof -
    from that(1) have "r \<in> set sorted_recs"
      unfolding recs by (rule in_set_takeD)
    with sort_recommendations_set [OF sorted] have "r \<in> set all_recs" by blast
    with map_raise_member [OF loop] obtain p
      where "recommend_provider self txt ?prefs p = Inr r" by blast
    then show ?thesis using that(2) by (rule recommend_provider_over_budget)
  qed
  have len: "length recs = 3"
  proof -
    have "length all_recs = 5"
      using map_raise_length [OF loop] by (simp add: PROVIDERS_def)
    with sort_recommendations_length [OF sorted] show ?thesis
      by (simp add: recs)
  qed
  have same: "map without_rank recs' = map without_rank recs"
    if other: "get_provider_recommendations self txt (Some (?prefs\<lparr>budget_limit := b\<rparr>)) = Inr recs'"
    for b recs'
  proof -
    let ?prefs' = "?prefs\<lparr>budget_limit := b\<rparr>"
    from other obtain all_recs' sorted_recs'
      where loop': "map_raise (recommend_provider self txt ?prefs') (map fst PROVIDERS) = Inr all_recs'"
        and sorted': "sort_recommendations ?prefs all_recs' = Inr sorted_recs'"
        and recs': "recs' = take 3 sorted_recs'"
      by (auto simp: get_provider_recommendations_unfold effective_preferences_def split: sum.splits)
    have all: "map without_rank all_recs' = map without_rank all_recs"
      using loop loop' by (rule map_raise_related) (rule recommend_provider_budget_update)
    have "Inr (map without_rank sorted_recs') = sort_recommendations ?prefs (map without_rank all_recs')"
      by (simp add: sort_recommendations_without_rank sorted')
    also have "\<dots> = Inr (map without_rank sorted_recs)"
      by (simp add: all sort_recommendations_without_rank sorted)
    finally have "map without_rank sorted_recs' = map without_rank sorted_recs" by simp
    then show ?thesis by (simp add: recs recs' take_map [symmetric])
  qed
  from gate len same show ?thesis by blast
qed

text \<open>A text of 4000 characters, priority \<open>cost\<close>: with a budget limit of 0.01 the
  third entry returned, \<open>anthropic\<close> at 0.03, is over budget, has rank 0 and is in the
  list; with a budget limit of 1 the same three providers are returned in the same
  order.\<close>

lemmas recommendation_eval_defs =
  estimate_provider_tokens_def PROVIDERS_def first_model_def calibrated_input_tokens_def
  ProviderIntelligence_init_def py_int_def py_div_def py_round_def round_half_even_def Let_def
  recommend_provider_def get_recommendation_badge_def calculate_rank_def get_priority_def
  get_budget_limit_def budget_prefs_def best_value_badge_def long_text_def
  get_provider_recommendations_def effective_preferences_def sort_recommendations_def
  py_sort_def

lemma get_provider_recommendations_tight_budget:
  "\<exists>recs. get_provider_recommendations ProviderIntelligence_init long_text
           (Some (budget_prefs (1 / 100))) = Inr recs
     \<and> map (\<lambda>r. (rec_provider r, rec_cost_usd r, rank r)) recs
         = [(''google'', 1 / 5000, 49 / 50), (''groq'', 1 / 1250, 23 / 25),
            (''anthropic'', 3 / 100, 0)]"
  by (simp add: recommendation_eval_defs)

lemma get_provider_recommendations_default_budget:
  "\<exists>recs. get_provider_recommendations ProviderIntelligence_init long_text
           (Some (budget_prefs 1)) = Inr recs
     \<and> map (\<lambda>r. (rec_provider r, rec_cost_usd r, rank r)) recs
         = [(''google'', 1 / 5000, 4999 / 5000), (''groq'', 1 / 1250, 1249 / 1250),
            (''anthropic'', 3 / 100, 97 / 100)]"
  by (simp add: recommendation_eval_defs)

theorem get_provider_recommendations_budget_gate_witness:
  "\<exists>recs recs'.
      get_provider_recommendations ProviderIntelligence_init long_text
        (Some (budget_prefs (1 / 100))) = Inr recs
    \<and> map (\<lambda>r. (rec_provider r, rec_cost_usd r, rank r)) recs
        = [(''google'', 1 / 5000, 49 / 50), (''groq'', 1 / 1250, 23 / 25),
           (''anthropic'', 3 / 100, 0)]
    \<and> length recs = 3
    \<and> get_provider_recommendations ProviderIntelligence_init long_text
        (Some (budget_prefs 1)) = Inr recs'
    \<and> map without_rank recs' = map without_rank recs"
proof -
  from get_provider_recommendations_tight_budget obtain recs
    where tight: "get_provider_recommendations ProviderIntelligence_init long_text
                    (Some (budget_prefs (1 / 100))) = Inr recs"
      and shown: "map (\<lambda>r. (rec_provider r, rec_cost_usd r, rank r)) recs
         = [(''google'', 1 / 5000, 49 / 50), (''groq'', 1 / 1250, 23 / 25),
            (''anthropic'', 3 / 100, 0)]"
    by (elim exE conjE)
  from get_provider_recommendations_default_budget obtain recs'
    where loose: "get_provider_recommendations ProviderIntelligence_init long_text
                    (Some (budget_prefs 1)) = Inr recs'"
    by (elim exE conjE)
  have upd: "(effective_preferences (Some (budget_prefs (1 / 100))))\<lparr>budget_limit := Some 1\<rparr>
             = budget_prefs 1"
    by (simp add: effective_preferences_def budget_prefs_def)
  from get_provider_recommendations_budget_gate [OF tight]
  have len: "length recs = 3"
    and same: "\<And>b recs'. get_provider_recommendations ProviderIntelligence_init long_text
              (Some ((effective_preferences (Some (budget_prefs (1 / 100))))\<lparr>budget_limit := b\<rparr>))
              = Inr recs' \<Longrightarrow> map without_rank recs' = map without_rank recs"
    by blast+
  from same [of "Some 1" recs'] loose upd
  have "map without_rank recs' = map without_rank recs" by simp
  with tight shown len loose show ?thesis
    by (intro exI [of _ recs] exI [of _ recs'] conjI)
qed

section \<open>Properties of \<^verbatim>\<open>learn_from_optimization\<close>\<close>

text \<open>The calibration record of the provider after one call with learning enabled,
  whatever the arguments.\<close>

lemma learn_from_optimization_calibration_record:
  assumes "pi_learning_enabled self"
  shows "provider_calibration
           (learn_from_optimization self now user_id provider txt tokens_estimated tokens_actual
              cost optimization_level) provider =
         Some \<lparr>token_ratio =
                  (if 0 < tokens_estimated
                   then (3 / 10) * (real_of_int tokens_actual / real_of_int tokens_estimated)
                        + (7 / 10) * token_ratio (current_calibration self provider)
                   else token_ratio (current_calibration self provider)),
               sample_count = sample_count (current_calibration self provider) + 1,
               cost_per_token =
                  (if 0 < tokens_actual then cost / real_of_int tokens_actual else 0)\<rparr>"
  using assms by (simp add: learn_from_optimization_def Let_def)

lemma learn_from_optimization_disabled:
  assumes "\<not> pi_learning_enabled self"
  shows "learn_from_optimization self now user_id provider txt tokens_estimated tokens_actual
           cost optimization_level = self"
  using assms by (simp add: learn_from_optimization_def)

lemma learn_from_optimization_other_provider:
  assumes "other \<noteq> provider"
  shows "provider_calibration
           (learn_from_optimization self now user_id provider txt tokens_estimated tokens_actual
              cost optimization_level) other = provider_calibration self other"
  using assms by (simp add: learn_from_optimization_def Let_def)

text \<open>
  Claim C5, as amended.  For every call of \<^verbatim>\<open>learn_from_optimization\<close> with learning
  enabled and \<open>tokens_estimated > 0\<close>, the provider's \<open>token_ratio\<close> becomes
  \<open>0.3 \<times> (tokens_actual / tokens_estimated) + 0.7 \<times>\<close> its previous value (1.0 for a
  provider with no calibration record yet, so the first call with observed ratio \<open>r\<close>
  gives \<open>0.3 r + 0.7 \<times> 1.0\<close>), and \<open>cost_per_token\<close> becomes \<open>cost / tokens_actual\<close> when
  \<open>tokens_actual > 0\<close> and 0 otherwise.  The claim as written gives
  \<open>cost / tokens_actual\<close> for every \<open>tokens_actual\<close> other than 0; the guard of the code
  is \<open>tokens_actual > 0\<close>, so a negative count gives 0 as well.
\<close>

theorem learn_from_optimization_ema:
  assumes "pi_learning_enabled self" and "0 < tokens_estimated"
  shows "\<exists>c'. provider_calibration
                (learn_from_optimization self now user_id provider txt tokens_estimated
                   tokens_actual cost optimization_level) provider = Some c'
            \<and> token_ratio c' =
                0.3 * (real_of_int tokens_actual / real_of_int tokens_estimated)
                + 0.7 * token_ratio (current_calibration self provider)
            \<and> cost_per_token c' =
                (if 0 < tokens_actual then cost / real_of_int tokens_actual else 0)
            \<and> (provider_calibration self provider = None \<longrightarrow>
                 token_ratio c' =
                   0.3 * (real_of_int tokens_actual / real_of_int tokens_estimated) + 0.7 * 1.0)"
  using assms
  by (simp add: learn_from_optimization_calibration_record current_calibration_def
      initial_calibration_def)

theorem learn_from_optimization_ema_witness:
  "\<exists>c'. provider_calibration
          (learn_from_optimization ProviderIntelligence_init ''2026-01-01T00:00:00'' ''u1''
             ''openai'' ''some text'' 100 150 (3 / 10) ''balanced'') ''openai'' = Some c'
      \<and> token_ratio c' = 23 / 20 \<and> cost_per_token c' = 1 / 500"
proof -
  have en: "pi_learning_enabled ProviderIntelligence_init"
    by (simp add: ProviderIntelligence_init_def)
  have none: "provider_calibration ProviderIntelligence_init ''openai'' = None"
    by (simp add: ProviderIntelligence_init_def)
  show ?thesis
    using learn_from_optimization_ema [OF en, of 100 "''2026-01-01T00:00:00''" "''u1''"
        "''openai''" "''some text''" 150 "3 / 10" "''balanced''"] none
    by auto
qed

text \<open>The claim C5 as written fails for a negative \<open>tokens_actual\<close>: with
  \<open>tokens_estimated = 1\<close>, \<open>tokens_actual = -1\<close> and \<open>cost = 1\<close> the code stores
  \<open>cost_per_token = 0\<close>, not \<open>cost / tokens_actual = -1\<close>.\<close>

theorem learn_from_optimization_negative_actual_counterexample:
  "cost_per_token (the (provider_calibration
     (learn_from_optimization ProviderIntelligence_init ''2026-01-01T00:00:00'' ''u1'' ''openai''
        ''some text'' 1 (- 1) 1 ''balanced'') ''openai'')) = 0
   \<and> (1::real) / real_of_int (- 1) = - 1"
  by (simp add: learn_from_optimization_def ProviderIntelligence_init_def Let_def
      current_calibration_def initial_calibration_def)

text \<open>
  Claim C10, as amended.  For every call of \<^verbatim>\<open>learn_from_optimization\<close> with learning
  enabled and \<open>tokens_estimated = 0\<close>, the provider's \<open>token_ratio\<close> is left unchanged
  (1.0 for a provider that had no calibration record), \<open>sample_count\<close> is still
  incremented by exactly 1, and \<open>cost_per_token\<close> is still overwritten, with
  \<open>cost / tokens_actual\<close> when \<open>tokens_actual > 0\<close> and with 0 otherwise: the skip applies
  to the \<open>token_ratio\<close> field only.  As in C5, the claim as written gives
  \<open>cost / tokens_actual\<close> for a negative \<open>tokens_actual\<close>, where the code stores 0.
\<close>

theorem learn_from_optimization_zero_estimate:
  assumes "pi_learning_enabled self" and "tokens_estimated = 0"
  shows "\<exists>c'. provider_calibration
                (learn_from_optimization self now user_id provider txt tokens_estimated
                   tokens_actual cost optimization_level) provider = Some c'
            \<and> token_ratio c' = token_ratio (current_calibration self provider)
            \<and> sample_count c' = sample_count (current_calibration self provider) + 1
            \<and> cost_per_token c' =
                (if 0 < tokens_actual then cost / real_of_int tokens_actual else 0)"
  using assms by (simp add: learn_from_optimization_calibration_record)

theorem learn_from_optimization_zero_estimate_witness:
  "\<exists>c'. provider_calibration
          (learn_from_optimization calibrated_engine ''2026-01-02T00:00:00'' ''u1''
             ''openai'' ''abc'' 0 40 (1 / 10) ''balanced'') ''openai'' = Some c'
      \<and> token_ratio c' = 23 / 20 \<and> sample_count c' = 2 \<and> cost_per_token c' = 1 / 400"
proof -
  have en: "pi_learning_enabled calibrated_engine"
    by (simp add: calibrated_engine_def)
  have cur: "current_calibration calibrated_engine ''openai''
             = \<lparr>token_ratio = 23 / 20, sample_count = 1, cost_per_token = 1 / 500\<rparr>"
    by (simp add: calibrated_engine_def current_calibration_def)
  show ?thesis
    using learn_from_optimization_zero_estimate [OF en refl, of "''2026-01-02T00:00:00''"
        "''u1''" "''openai''" "''abc''" 40 "1 / 10" "''balanced''"]
    by (simp add: cur)
qed

text \<open>The claim C10 as written fails for a negative \<open>tokens_actual\<close>: with
  \<open>tokens_estimated = 0\<close>, \<open>tokens_actual = -2\<close> and \<open>cost = 3\<close> the code stores
  \<open>cost_per_token = 0\<close>, not \<open>cost / tokens_actual = -3/2\<close>.\<close>

theorem learn_from_optimization_zero_estimate_counterexample:
  "cost_per_token (the (provider_calibration
     (learn_from_optimization ProviderIntelligence_init ''2026-01-01T00:00:00'' ''u1'' ''openai''
        ''abc'' 0 (- 2) 3 ''balanced'') ''openai'')) = 0
   \<and> (3::real) / real_of_int (- 2) = - (3 / 2)"
  by (simp add: learn_from_optimization_def ProviderIntelligence_init_def Let_def
      current_calibration_def initial_calibration_def)
section \<open>Properties of \<^verbatim>\<open>record_usage\<close>\<close>

lemma sum_cost_add_usage: "sum_cost (add_usage k c t d) = sum_cost d + c"
  by (induction d) (auto simp: sum_cost_def)

lemma sum_tokens_add_usage: "sum_tokens (add_usage k c t d) = sum_tokens d + t"
  by (induction d) (auto simp: sum_tokens_def)

lemma keys_add_usage:
  "map fst (add_usage k c t d) = (if k \<in> set (map fst d) then map fst d else map fst d @ [k])"
  by (induction d) (auto simp: rev_image_eqI)

lemma distinct_add_usage:
  "distinct (map fst d) \<Longrightarrow> distinct (map fst (add_usage k c t d))"
  by (simp add: keys_add_usage)

lemma additive_new_daily_record: "additive (new_daily_record today)"
  by (simp add: additive_def new_daily_record_def sum_cost_def sum_tokens_def)

lemma additive_update_record:
  assumes "additive r"
  shows "additive (update_record timestamp provider tokens_used cost optimization_level r)"
  using assms
  by (simp add: additive_def update_record_def sum_cost_add_usage sum_tokens_add_usage
      distinct_add_usage)

lemma date_update_record [simp]:
  "date (update_record timestamp provider tokens_used cost optimization_level r) = date r"
  by (simp add: update_record_def)

lemma update_today_all:
  assumes "\<forall>r \<in> set usage. P r" and "\<And>r. P r \<Longrightarrow> P (f r)" and "P (new_daily_record today)"
  shows "\<forall>r \<in> set (update_today today f usage). P r"
  using assms(1) by (induction usage) (auto intro: assms(2,3))

lemma ledger_record_usage:
  "ledger (record_usage self today timestamp user_id provider tokens_used cost optimization_level) u =
     (if cp_learning_enabled self \<and> u = user_id
      then update_today today
             (update_record timestamp provider tokens_used cost optimization_level)
             (ledger self user_id)
      else ledger self u)"
  by (simp add: record_usage_def ledger_def Let_def)

lemma learning_enabled_record_usage [simp]:
  "cp_learning_enabled (record_usage self today timestamp user_id provider tokens_used cost
     optimization_level) = cp_learning_enabled self"
  by (simp add: record_usage_def Let_def)

lemma record_usage_preserves_additive:
  assumes "\<forall>r \<in> set (ledger self u). additive r"
  shows "\<forall>r \<in> set (ledger (record_usage self today timestamp user_id provider tokens_used cost
                          optimization_level) u). additive r"
proof (cases "cp_learning_enabled self \<and> u = user_id")
  case True
  with assms have "\<forall>r \<in> set (ledger self user_id). additive r" by simp
  then have "\<forall>r \<in> set (update_today today
             (update_record timestamp provider tokens_used cost optimization_level)
             (ledger self user_id)). additive r"
    by (rule update_today_all) (simp_all add: additive_update_record additive_new_daily_record)
  with True show ?thesis by (simp add: ledger_record_usage)
next
  case False
  with assms show ?thesis by (auto simp: ledger_record_usage)
qed

lemma todays_record_update_today:
  assumes "\<And>r. date (f r) = date r"
  shows "todays_record today (update_today today f usage) = Some (f (day_state today usage))"
  by (induction usage)
     (simp_all add: todays_record_def day_state_def assms new_daily_record_def)

lemma count_update_today:
  assumes "\<And>r. date (f r) = date r"
  shows "length (filter (\<lambda>r. date r = today) (update_today today f usage)) =
           (if todays_record today usage = None then 1
            else length (filter (\<lambda>r. date r = today) usage))"
  by (induction usage)
     (auto simp: todays_record_def assms new_daily_record_def find_None_iff filter_empty_conv)


text \<open>A ledger keeps one record per date.\<close>

lemma dates_update_today:
  assumes "\<And>r. date (f r) = date r"
  shows "map date (update_today today f usage) =
           (if today \<in> set (map date usage) then map date usage
            else map date usage @ [today])"
  by (induction usage) (auto simp: assms new_daily_record_def)

lemma record_usage_distinct_dates:
  assumes "distinct (map date (ledger self u))"
  shows "distinct (map date (ledger (record_usage self today timestamp user_id provider
                                       tokens_used cost optimization_level) u))"
  using assms
  by (auto simp: ledger_record_usage dates_update_today simp del: set_map)

lemma date_apply_request [simp]: "date (apply_request r q) = date r"
  by (simp add: apply_request_def)

lemma ledger_record_request:
  assumes "cp_learning_enabled self"
  shows "ledger (record_request today user_id self q) user_id =
           update_today today (\<lambda>r. apply_request r q) (ledger self user_id)"
  using assms by (simp add: record_request_def ledger_record_usage apply_request_def)

lemma learning_enabled_record_all [simp]:
  "cp_learning_enabled (record_all self today user_id reqs) = cp_learning_enabled self"
  unfolding record_all_def
  by (induction reqs arbitrary: self) (simp_all add: record_request_def)

lemma record_all_snoc:
  "record_all self today user_id (reqs @ [q]) =
     record_request today user_id (record_all self today user_id reqs) q"
  by (simp add: record_all_def)

lemma todays_record_record_request:
  assumes "cp_learning_enabled self"
  shows "todays_record today (ledger (record_request today user_id self q) user_id) =
           Some (apply_request (day_state today (ledger self user_id)) q)"
  by (simp add: ledger_record_request [OF assms] todays_record_update_today)

lemma day_state_record_all:
  assumes "cp_learning_enabled self"
  shows "day_state today (ledger (record_all self today user_id reqs) user_id) =
           foldl apply_request (day_state today (ledger self user_id)) reqs"
proof (induction reqs rule: rev_induct)
  case Nil
  show ?case by (simp add: record_all_def)
next
  case (snoc q reqs)
  have en: "cp_learning_enabled (record_all self today user_id reqs)"
    using assms by simp
  have "day_state today (ledger (record_all self today user_id (reqs @ [q])) user_id) =
          apply_request (day_state today (ledger (record_all self today user_id reqs) user_id)) q"
    by (simp add: day_state_def [of today "ledger (record_request _ _ _ _) _"]
        record_all_snoc todays_record_record_request [OF en])
  with snoc show ?case by simp
qed

lemma todays_record_record_all:
  assumes "cp_learning_enabled self" and "reqs \<noteq> []"
  shows "todays_record today (ledger (record_all self today user_id reqs) user_id) =
           Some (foldl apply_request (day_state today (ledger self user_id)) reqs)"
proof -
  from assms(2) obtain qs q where reqs: "reqs = qs @ [q]"
    by (metis rev_exhaust)
  have en: "cp_learning_enabled (record_all self today user_id qs)"
    using assms(1) by simp
  show ?thesis
    by (simp add: reqs record_all_snoc todays_record_record_request [OF en]
        day_state_record_all [OF assms(1)])
qed

lemma count_record_request:
  assumes "cp_learning_enabled self"
  shows "length (filter (\<lambda>r. date r = today)
           (ledger (record_request today user_id self q) user_id)) =
         (if todays_record today (ledger self user_id) = None then 1
          else length (filter (\<lambda>r. date r = today) (ledger self user_id)))"
  by (simp add: ledger_record_request [OF assms] count_update_today)

lemma record_all_Nil [simp]: "record_all self today user_id [] = self"
  by (simp add: record_all_def)

lemma count_record_all:
  assumes "cp_learning_enabled self" and "reqs \<noteq> []"
    and "todays_record today (ledger self user_id) = None"
  shows "length (filter (\<lambda>r. date r = today)
           (ledger (record_all self today user_id reqs) user_id)) = 1"
  using assms(2)
proof (induction reqs rule: rev_induct)
  case Nil
  then show ?case by simp
next
  case (snoc q reqs)
  have en: "cp_learning_enabled (record_all self today user_id reqs)"
    using assms(1) by simp
  show ?case
  proof (cases "reqs = []")
    case True
    with assms(3) show ?thesis
      by (simp add: record_all_def count_record_request [OF assms(1)])
  next
    case False
    with snoc.IH todays_record_record_all [OF assms(1) False, of today user_id]
    show ?thesis
      by (simp add: record_all_snoc count_record_request [OF en])
  qed
qed

lemma requests_apply_request: "requests (apply_request r q) = requests r @ [q]"
  by (simp add: apply_request_def update_record_def)

lemma requests_foldl_apply_request:
  "requests (foldl apply_request r reqs) = requests r @ reqs"
  by (induction reqs arbitrary: r) (simp_all add: requests_apply_request)

lemma additive_foldl_apply_request:
  "additive r \<Longrightarrow> additive (foldl apply_request r reqs)"
  by (induction reqs arbitrary: r) (simp_all add: apply_request_def additive_update_record)


text \<open>
  Additivity of the ledger in exact arithmetic.  Every \<^verbatim>\<open>record_usage\<close> call preserves
  the invariant \<open>additive\<close> of every daily record of every user (total cost and tokens
  are the sums over the recorded requests, and the \<^verbatim>\<open>by_provider\<close> and \<^verbatim>\<open>by_level\<close>
  sub-totals each sum to the totals).  And after any non-empty sequence of
  \<^verbatim>\<open>record_usage\<close> calls with learning enabled, for one user and one day that had no
  record yet, the ledger holds exactly one record of that day; it lists the recorded
  requests, its \<open>total_cost\<close> is the sum of the recorded costs, its \<open>total_tokens\<close> the
  sum of the recorded token counts, and the sub-totals per provider and per level sum
  to those totals.
\<close>

lemma record_usage_additivity:
  "((\<forall>r \<in> set (ledger self u). additive r) \<longrightarrow>
      (\<forall>r \<in> set (ledger (record_usage self today timestamp user_id provider tokens_used cost
                            optimization_level) u). additive r))
   \<and> (cp_learning_enabled self \<and> todays_record today (ledger self user_id) = None
        \<and> reqs \<noteq> [] \<longrightarrow>
        (\<exists>r. todays_record today (ledger (record_all self today user_id reqs) user_id) = Some r
           \<and> length (filter (\<lambda>r. date r = today)
                 (ledger (record_all self today user_id reqs) user_id)) = 1
           \<and> requests r = reqs
           \<and> total_cost r = sum_list (map req_cost reqs)
           \<and> total_tokens r = sum_list (map req_tokens reqs)
           \<and> sum_cost (by_provider r) = total_cost r
           \<and> sum_tokens (by_provider r) = total_tokens r
           \<and> sum_cost (by_level r) = total_cost r
           \<and> sum_tokens (by_level r) = total_tokens r))"
proof (intro conjI impI)
  assume "\<forall>r \<in> set (ledger self u). additive r"
  then show "\<forall>r \<in> set (ledger (record_usage self today timestamp user_id provider tokens_used
                cost optimization_level) u). additive r"
    by (rule record_usage_preserves_additive)
next
  assume h: "cp_learning_enabled self \<and> todays_record today (ledger self user_id) = None
        \<and> reqs \<noteq> []"
  then have en: "cp_learning_enabled self"
    and fresh: "todays_record today (ledger self user_id) = None"
    and ne: "reqs \<noteq> []"
    by simp_all
  let ?r = "foldl apply_request (new_daily_record today) reqs"
  have start: "day_state today (ledger self user_id) = new_daily_record today"
    by (simp add: day_state_def fresh)
  have found: "todays_record today (ledger (record_all self today user_id reqs) user_id) = Some ?r"
    by (simp add: todays_record_record_all [OF en ne] start)
  have one: "length (filter (\<lambda>r. date r = today)
                 (ledger (record_all self today user_id reqs) user_id)) = 1"
    by (rule count_record_all [OF en ne fresh])
  have reqs: "requests ?r = reqs"
    by (simp add: requests_foldl_apply_request new_daily_record_def)
  have "additive ?r"
    by (rule additive_foldl_apply_request) (rule additive_new_daily_record)
  then have "total_cost ?r = sum_list (map req_cost reqs)
           \<and> total_tokens ?r = sum_list (map req_tokens reqs)
           \<and> sum_cost (by_provider ?r) = total_cost ?r
           \<and> sum_tokens (by_provider ?r) = total_tokens ?r
           \<and> sum_cost (by_level ?r) = total_cost ?r
           \<and> sum_tokens (by_level ?r) = total_tokens ?r"
    by (simp add: additive_def reqs)
  with found one reqs
  show "\<exists>r. todays_record today (ledger (record_all self today user_id reqs) user_id) = Some r
           \<and> length (filter (\<lambda>r. date r = today)
                 (ledger (record_all self today user_id reqs) user_id)) = 1
           \<and> requests r = reqs
           \<and> total_cost r = sum_list (map req_cost reqs)
           \<and> total_tokens r = sum_list (map req_tokens reqs)
           \<and> sum_cost (by_provider r) = total_cost r
           \<and> sum_tokens (by_provider r) = total_tokens r
           \<and> sum_cost (by_level r) = total_cost r
           \<and> sum_tokens (by_level r) = total_tokens r"
    by (intro exI [of _ ?r] conjI) simp_all
qed

lemma three_requests_day:
  "todays_record ''2026-01-05''
     (ledger (record_all CostPredictionEngine_init ''2026-01-05'' ''u1'' three_requests) ''u1'')
   = Some \<lparr>date = ''2026-01-05'', total_cost = 6 / 100, total_tokens = 2000,
           requests = three_requests,
           by_provider = [(''openai'', \<lparr>ct_cost = 5 / 100, ct_tokens = 1600\<rparr>),
                          (''groq'', \<lparr>ct_cost = 1 / 100, ct_tokens = 400\<rparr>)],
           by_level = [(''balanced'', \<lparr>ct_cost = 3 / 100, ct_tokens = 1000\<rparr>),
                       (''aggressive'', \<lparr>ct_cost = 3 / 100, ct_tokens = 1000\<rparr>)]\<rparr>"
  by (simp add: three_requests_def record_all_def record_request_def record_usage_def
      CostPredictionEngine_init_def ledger_def todays_record_def update_record_def
      new_daily_record_def Let_def)

lemma record_usage_additivity_example:
  "\<exists>r. todays_record ''2026-01-05''
          (ledger (record_all CostPredictionEngine_init ''2026-01-05'' ''u1'' three_requests)
             ''u1'') = Some r
      \<and> total_cost r = 6 / 100 \<and> total_tokens r = 2000
      \<and> sum_cost (by_provider r) = 6 / 100 \<and> sum_tokens (by_provider r) = 2000
      \<and> sum_cost (by_level r) = 6 / 100 \<and> sum_tokens (by_level r) = 2000
      \<and> additive r"
proof -
  have en: "cp_learning_enabled CostPredictionEngine_init"
    by (simp add: CostPredictionEngine_init_def)
  have fresh: "todays_record ''2026-01-05'' (ledger CostPredictionEngine_init ''u1'') = None"
    by (simp add: CostPredictionEngine_init_def ledger_def todays_record_def)
  have ne: "three_requests \<noteq> []"
    by (simp add: three_requests_def)
  have sums: "sum_list (map req_cost three_requests) = 6 / 100"
    "sum_list (map req_tokens three_requests) = 2000"
    by (simp_all add: three_requests_def)
  note inst = record_usage_additivity [of CostPredictionEngine_init "''u1''" "''2026-01-05''"
      "''2026-01-05T12:00:00''" "''u1''" "''openai''" 100 "1 / 100" "''balanced''" three_requests]
  from inst en fresh ne obtain r
    where r: "todays_record ''2026-01-05''
          (ledger (record_all CostPredictionEngine_init ''2026-01-05'' ''u1'' three_requests)
             ''u1'') = Some r"
      and tot: "total_cost r = sum_list (map req_cost three_requests)"
        "total_tokens r = sum_list (map req_tokens three_requests)"
        "sum_cost (by_provider r) = total_cost r" "sum_tokens (by_provider r) = total_tokens r"
        "sum_cost (by_level r) = total_cost r" "sum_tokens (by_level r) = total_tokens r"
    by blast
  from r three_requests_day have "additive r"
    by (auto simp: additive_def sum_cost_def sum_tokens_def three_requests_def)
  with r tot sums show ?thesis
    by (intro exI [of _ r] conjI) simp_all
qed

subsection \<open>The ledger in float arithmetic\<close>

text \<open>\<^verbatim>\<open>record_usage\<close> with exact addition is the model used above.\<close>

lemma add_usage_with_plus: "add_usage_with (+) k c t d = add_usage k c t d"
  by (induction d) auto

lemma update_record_with_plus:
  "update_record_with (+) timestamp provider tokens_used cost optimization_level r =
     update_record timestamp provider tokens_used cost optimization_level r"
  by (simp add: update_record_with_def update_record_def add_usage_with_plus)

lemma record_usage_with_plus:
  "record_usage_with (+) self today timestamp user_id provider tokens_used cost
       optimization_level =
     record_usage self today timestamp user_id provider tokens_used cost optimization_level"
proof -
  have "update_record_with (+) timestamp provider tokens_used cost optimization_level =
          update_record timestamp provider tokens_used cost optimization_level"
    by (rule ext) (rule update_record_with_plus)
  then show ?thesis
    by (simp add: record_usage_with_def record_usage_def)
qed

lemma record_all_with_plus:
  "record_all_with (+) self today user_id reqs = record_all self today user_id reqs"
proof -
  have "record_request_with (+) today user_id = record_request today user_id"
    by (intro ext) (simp add: record_request_with_def record_request_def record_usage_with_plus)
  then show ?thesis
    by (simp add: record_all_with_def record_all_def)
qed

lemma accumulate_snoc: "accumulate add (cs @ [c]) = add (accumulate add cs) c"
  by (simp add: accumulate_def)

lemma keys_add_usage_with:
  "map fst (add_usage_with add k c t d) =
     (if k \<in> set (map fst d) then map fst d else map fst d @ [k])"
  by (induction d) (auto simp: rev_image_eqI)

lemma map_of_add_usage_with:
  "map_of (add_usage_with add k c t d) =
     (map_of d)(k \<mapsto>
        (case map_of d k of
           None \<Rightarrow> \<lparr>ct_cost = add 0 c, ct_tokens = 0 + t\<rparr>
         | Some v \<Rightarrow> \<lparr>ct_cost = add (ct_cost v) c, ct_tokens = ct_tokens v + t\<rparr>))"
  by (induction d) (auto simp: fun_eq_iff)

lemma sum_tokens_add_usage_with:
  "sum_tokens (add_usage_with add k c t d) = sum_tokens d + t"
  by (induction d) (auto simp: sum_tokens_def)

lemma requests_for_snoc:
  "requests_for key k (reqs @ [q]) =
     (if key q = k then requests_for key k reqs @ [q] else requests_for key k reqs)"
  by (simp add: requests_for_def)

lemma requests_for_absent:
  "k \<notin> key ` set reqs \<Longrightarrow> requests_for key k reqs = []"
  by (auto simp: requests_for_def filter_empty_conv)

lemma sub_totals_add_usage_with:
  assumes "sub_totals add key d reqs" and "key q = k"
  shows "sub_totals add key (add_usage_with add k (req_cost q) (req_tokens q) d) (reqs @ [q])"
proof -
  from assms(1) have dist: "distinct (map fst d)"
    and keys: "set (map fst d) = key ` set reqs"
    and all: "\<forall>k' \<in> key ` set reqs. map_of d k' = Some (sub_total add key k' reqs)"
    unfolding sub_totals_def by blast+
  note vals = all [rule_format]
  let ?d = "add_usage_with add k (req_cost q) (req_tokens q) d"
  have d1: "distinct (map fst ?d)"
    using dist by (simp add: keys_add_usage_with)
  have d2: "set (map fst ?d) = key ` set (reqs @ [q])"
    using keys assms(2) by (auto simp: keys_add_usage_with)
  have d3: "map_of ?d k' = Some (sub_total add key k' (reqs @ [q]))"
    if "k' \<in> key ` set (reqs @ [q])" for k'
  proof (cases "k' = k")
    case True
    show ?thesis
    proof (cases "k \<in> key ` set reqs")
      case True
      from vals [OF this] \<open>k' = k\<close> assms(2) show ?thesis
        by (simp add: map_of_add_usage_with sub_total_def requests_for_snoc accumulate_snoc)
    next
      case False
      then have "k \<notin> set (map fst d)" using keys by simp
      then have "map_of d k = None" by (simp add: map_of_eq_None_iff)
      with False \<open>k' = k\<close> assms(2) show ?thesis
        by (simp add: map_of_add_usage_with sub_total_def requests_for_snoc
            requests_for_absent accumulate_def)
    qed
  next
    case False
    with that assms(2) have "k' \<in> key ` set reqs" by auto
    from vals [OF this] False assms(2) show ?thesis
      by (simp add: map_of_add_usage_with sub_total_def requests_for_snoc)
  qed
  from d1 d2 d3 show ?thesis
    unfolding sub_totals_def by blast
qed

lemma accumulated_new_daily_record: "accumulated add (new_daily_record today)"
  by (simp add: accumulated_def new_daily_record_def accumulate_def sub_totals_def
      sum_tokens_def)

lemma accumulated_update_record_with:
  assumes "accumulated add r"
  shows "accumulated add
           (update_record_with add timestamp provider tokens_used cost optimization_level r)"
proof -
  let ?q = "\<lparr>req_timestamp = timestamp, req_provider = provider, req_tokens = tokens_used,
             req_cost = cost, req_level = optimization_level\<rparr>"
  from assms have p: "sub_totals add req_provider (by_provider r) (requests r)"
    and l: "sub_totals add req_level (by_level r) (requests r)"
    by (simp_all add: accumulated_def)
  have p': "sub_totals add req_provider
              (add_usage_with add provider cost tokens_used (by_provider r)) (requests r @ [?q])"
    using sub_totals_add_usage_with [OF p, of ?q provider] by simp
  have l': "sub_totals add req_level
              (add_usage_with add optimization_level cost tokens_used (by_level r))
              (requests r @ [?q])"
    using sub_totals_add_usage_with [OF l, of ?q optimization_level] by simp
  from assms p' l' show ?thesis
    by (simp add: accumulated_def update_record_with_def accumulate_snoc
        sum_tokens_add_usage_with)
qed

lemma date_update_record_with [simp]:
  "date (update_record_with add timestamp provider tokens_used cost optimization_level r) = date r"
  by (simp add: update_record_with_def)

lemma ledger_record_usage_with:
  "ledger (record_usage_with add self today timestamp user_id provider tokens_used cost
             optimization_level) u =
     (if cp_learning_enabled self \<and> u = user_id
      then update_today today
             (update_record_with add timestamp provider tokens_used cost optimization_level)
             (ledger self user_id)
      else ledger self u)"
  by (simp add: record_usage_with_def ledger_def Let_def)

lemma learning_enabled_record_usage_with [simp]:
  "cp_learning_enabled (record_usage_with add self today timestamp user_id provider tokens_used
     cost optimization_level) = cp_learning_enabled self"
  by (simp add: record_usage_with_def Let_def)

lemma record_usage_with_preserves_accumulated:
  assumes "\<forall>r \<in> set (ledger self u). accumulated add r"
  shows "\<forall>r \<in> set (ledger (record_usage_with add self today timestamp user_id provider
                          tokens_used cost optimization_level) u). accumulated add r"
proof (cases "cp_learning_enabled self \<and> u = user_id")
  case True
  with assms have "\<forall>r \<in> set (ledger self user_id). accumulated add r" by simp
  then have "\<forall>r \<in> set (update_today today
             (update_record_with add timestamp provider tokens_used cost optimization_level)
             (ledger self user_id)). accumulated add r"
    by (rule update_today_all)
       (simp_all add: accumulated_update_record_with accumulated_new_daily_record)
  with True show ?thesis by (simp add: ledger_record_usage_with)
next
  case False
  with assms show ?thesis by (auto simp: ledger_record_usage_with)
qed

lemma date_apply_request_with [simp]: "date (apply_request_with add r q) = date r"
  by (simp add: apply_request_with_def)

lemma ledger_record_request_with:
  assumes "cp_learning_enabled self"
  shows "ledger (record_request_with add today user_id self q) user_id =
           update_today today (\<lambda>r. apply_request_with add r q) (ledger self user_id)"
  using assms
  by (simp add: record_request_with_def ledger_record_usage_with apply_request_with_def)

lemma learning_enabled_record_all_with [simp]:
  "cp_learning_enabled (record_all_with add self today user_id reqs) = cp_learning_enabled self"
  unfolding record_all_with_def
  by (induction reqs arbitrary: self) (simp_all add: record_request_with_def)

lemma record_all_with_snoc:
  "record_all_with add self today user_id (reqs @ [q]) =
     record_request_with add today user_id (record_all_with add self today user_id reqs) q"
  by (simp add: record_all_with_def)

lemma record_all_with_Nil [simp]: "record_all_with add self today user_id [] = self"
  by (simp add: record_all_with_def)

lemma todays_record_record_request_with:
  assumes "cp_learning_enabled self"
  shows "todays_record today (ledger (record_request_with add today user_id self q) user_id) =
           Some (apply_request_with add (day_state today (ledger self user_id)) q)"
  by (simp add: ledger_record_request_with [OF assms] todays_record_update_today)

lemma day_state_record_all_with:
  assumes "cp_learning_enabled self"
  shows "day_state today (ledger (record_all_with add self today user_id reqs) user_id) =
           foldl (apply_request_with add) (day_state today (ledger self user_id)) reqs"
proof (induction reqs rule: rev_induct)
  case Nil
  show ?case by simp
next
  case (snoc q reqs)
  have en: "cp_learning_enabled (record_all_with add self today user_id reqs)"
    using assms by simp
  have "day_state today (ledger (record_all_with add self today user_id (reqs @ [q])) user_id) =
          apply_request_with add
            (day_state today (ledger (record_all_with add self today user_id reqs) user_id)) q"
    by (simp add: day_state_def [of today "ledger (record_request_with _ _ _ _ _) _"]
        record_all_with_snoc todays_record_record_request_with [OF en])
  with snoc show ?case by simp
qed

lemma todays_record_record_all_with:
  assumes "cp_learning_enabled self" and "reqs \<noteq> []"
  shows "todays_record today (ledger (record_all_with add self today user_id reqs) user_id) =
           Some (foldl (apply_request_with add) (day_state today (ledger self user_id)) reqs)"
proof -
  from assms(2) obtain qs q where reqs: "reqs = qs @ [q]"
    by (metis rev_exhaust)
  have en: "cp_learning_enabled (record_all_with add self today user_id qs)"
    using assms(1) by simp
  show ?thesis
    by (simp add: reqs record_all_with_snoc todays_record_record_request_with [OF en]
        day_state_record_all_with [OF assms(1)])
qed

lemma count_record_request_with:
  assumes "cp_learning_enabled self"
  shows "length (filter (\<lambda>r. date r = today)
           (ledger (record_request_with add today user_id self q) user_id)) =
         (if todays_record today (ledger self user_id) = None then 1
          else length (filter (\<lambda>r. date r = today) (ledger self user_id)))"
  by (simp add: ledger_record_request_with [OF assms] count_update_today)

lemma count_record_all_with:
  assumes "cp_learning_enabled self" and "reqs \<noteq> []"
    and "todays_record today (ledger self user_id) = None"
  shows "length (filter (\<lambda>r. date r = today)
           (ledger (record_all_with add self today user_id reqs) user_id)) = 1"
  using assms(2)
proof (induction reqs rule: rev_induct)
  case Nil
  then show ?case by simp
next
  case (snoc q reqs)
  have en: "cp_learning_enabled (record_all_with add self today user_id reqs)"
    using assms(1) by simp
  show ?case
  proof (cases "reqs = []")
    case True
    with assms(3) show ?thesis
      by (simp add: record_all_with_def count_record_request_with [OF assms(1)])
  next
    case False
    with snoc.IH todays_record_record_all_with [OF assms(1) False, where add = add and today = today
        and user_id = user_id]
    show ?thesis
      by (simp add: record_all_with_snoc count_record_request_with [OF en])
  qed
qed

lemma requests_apply_request_with: "requests (apply_request_with add r q) = requests r @ [q]"
  by (simp add: apply_request_with_def update_record_with_def)

lemma requests_foldl_apply_request_with:
  "requests (foldl (apply_request_with add) r reqs) = requests r @ reqs"
  by (induction reqs arbitrary: r) (simp_all add: requests_apply_request_with)

lemma accumulated_foldl_apply_request_with:
  "accumulated add r \<Longrightarrow> accumulated add (foldl (apply_request_with add) r reqs)"
  by (induction reqs arbitrary: r)
     (simp_all add: apply_request_with_def accumulated_update_record_with)

text \<open>Evaluating a binary64 rounding: when \<open>|x| \<times> 2 ^ k\<close> has exactly 53 bits before the
  binary point, the last bit of the binary64 values around \<open>x\<close> has exponent \<open>-k\<close>.\<close>

lemma bitlen_between:
  assumes "2 ^ n \<le> N" and "N < 2 ^ Suc n"
  shows "bitlen N = int n + 1"
proof -
  have "bitlen N \<le> int (Suc n)"
    unfolding bitlen_le_iff_power nat_int using assms(2) by simp
  moreover have "int (Suc n) \<le> bitlen N"
    unfolding bitlen_ge_iff_power nat_int using assms(1) by simp
  ultimately show ?thesis by simp
qed

lemma binary64_exponent_eq:
  assumes "2 ^ 52 \<le> \<bar>x\<bar> * 2 ^ k" and "\<bar>x\<bar> * 2 ^ k < 2 ^ 53" and "k \<le> 1074"
  shows "binary64_exponent x = - int k"
proof -
  define j where "j = 1074 - k"
  have k: "1074 = k + j" using assms(3) by (simp add: j_def)
  have eq: "\<bar>x\<bar> * 2 ^ 1074 = \<bar>x\<bar> * 2 ^ k * 2 ^ j"
    unfolding k by (simp add: power_add)
  have lo: "(2::real) ^ (52 + j) \<le> \<bar>x\<bar> * 2 ^ 1074"
    unfolding eq power_add using assms(1) by (intro mult_right_mono) simp_all
  have hi: "\<bar>x\<bar> * 2 ^ 1074 < (2::real) ^ (53 + j)"
    unfolding eq power_add using assms(2) by (intro mult_strict_right_mono) simp_all
  have "(2::int) ^ (52 + j) \<le> \<lfloor>\<bar>x\<bar> * 2 ^ 1074\<rfloor>"
    using lo by (simp add: le_floor_iff)
  moreover have "\<lfloor>\<bar>x\<bar> * 2 ^ 1074\<rfloor> < (2::int) ^ Suc (52 + j)"
    using hi by (simp add: floor_less_iff)
  ultimately have "bitlen \<lfloor>\<bar>x\<bar> * 2 ^ 1074\<rfloor> = int (52 + j) + 1"
    by (rule bitlen_between)
  then show ?thesis
    using assms(3) by (simp add: binary64_exponent_def j_def)
qed

lemma round_binary64_eq:
  assumes "2 ^ 52 \<le> \<bar>x\<bar> * 2 ^ k" and "\<bar>x\<bar> * 2 ^ k < 2 ^ 53" and "k \<le> 1074"
  shows "round_binary64 x = of_int (round_half_even (x * 2 ^ k)) / 2 ^ k"
  by (simp add: round_binary64_def binary64_exponent_eq [OF assms] power_int_minus
      field_simps)

lemma float_requests_costs:
  "map req_cost float_requests =
     [8646911284551352 / 2 ^ 58, 5764607523034235 / 2 ^ 59, 5764607523034235 / 2 ^ 58]"
proof -
  have "round_binary64 (3 / 100) = 8646911284551352 / 2 ^ 58"
    by (subst round_binary64_eq [where k = 58]) (simp_all add: round_half_even_def)
  moreover have "round_binary64 (1 / 100) = 5764607523034235 / 2 ^ 59"
    by (subst round_binary64_eq [where k = 59]) (simp_all add: round_half_even_def)
  moreover have "round_binary64 (2 / 100) = 5764607523034235 / 2 ^ 58"
    by (subst round_binary64_eq [where k = 58]) (simp_all add: round_half_even_def)
  ultimately show ?thesis
    unfolding float_requests_def three_requests_def by simp
qed

lemma three_calls_day:
  "day_state d (ledger (record_all_with add CostPredictionEngine_init d ''u1''
       [\<lparr>req_timestamp = t1, req_provider = ''openai'', req_tokens = n1, req_cost = c1,
          req_level = ''balanced''\<rparr>,
        \<lparr>req_timestamp = t2, req_provider = ''groq'', req_tokens = n2, req_cost = c2,
          req_level = ''aggressive''\<rparr>,
        \<lparr>req_timestamp = t3, req_provider = ''openai'', req_tokens = n3, req_cost = c3,
          req_level = ''aggressive''\<rparr>]) ''u1'') =
     \<lparr>date = d, total_cost = add (add (add 0 c1) c2) c3, total_tokens = n1 + n2 + n3,
      requests =
       [\<lparr>req_timestamp = t1, req_provider = ''openai'', req_tokens = n1, req_cost = c1,
          req_level = ''balanced''\<rparr>,
        \<lparr>req_timestamp = t2, req_provider = ''groq'', req_tokens = n2, req_cost = c2,
          req_level = ''aggressive''\<rparr>,
        \<lparr>req_timestamp = t3, req_provider = ''openai'', req_tokens = n3, req_cost = c3,
          req_level = ''aggressive''\<rparr>],
      by_provider = [(''openai'', \<lparr>ct_cost = add (add 0 c1) c3, ct_tokens = n1 + n3\<rparr>),
                     (''groq'', \<lparr>ct_cost = add 0 c2, ct_tokens = n2\<rparr>)],
      by_level = [(''balanced'', \<lparr>ct_cost = add 0 c1, ct_tokens = n1\<rparr>),
                  (''aggressive'', \<lparr>ct_cost = add (add 0 c2) c3, ct_tokens = n2 + n3\<rparr>)]\<rparr>"
  by (simp add: record_all_with_def record_request_with_def record_usage_with_def
      CostPredictionEngine_init_def ledger_def day_state_def todays_record_def
      update_record_with_def new_daily_record_def Let_def)

lemma float_requests_eq:
  "float_requests =
     [\<lparr>req_timestamp = ''2026-01-05T09:00:00'', req_provider = ''openai'', req_tokens = 1000,
       req_cost = 8646911284551352 / 2 ^ 58, req_level = ''balanced''\<rparr>,
      \<lparr>req_timestamp = ''2026-01-05T10:00:00'', req_provider = ''groq'', req_tokens = 400,
       req_cost = 5764607523034235 / 2 ^ 59, req_level = ''aggressive''\<rparr>,
      \<lparr>req_timestamp = ''2026-01-05T11:00:00'', req_provider = ''openai'', req_tokens = 600,
       req_cost = 5764607523034235 / 2 ^ 58, req_level = ''aggressive''\<rparr>]"
  using float_requests_costs
  by (simp add: float_requests_def three_requests_def)

lemma float_day_eq:
  "float_day =
     \<lparr>date = ''2026-01-05'', total_cost = 8646911284551352 / 2 ^ 57, total_tokens = 2000,
      requests = float_requests,
      by_provider = [(''openai'', \<lparr>ct_cost = 7205759403792794 / 2 ^ 57, ct_tokens = 1600\<rparr>),
                     (''groq'', \<lparr>ct_cost = 5764607523034235 / 2 ^ 59, ct_tokens = 400\<rparr>)],
      by_level = [(''balanced'', \<lparr>ct_cost = 8646911284551352 / 2 ^ 58, ct_tokens = 1000\<rparr>),
                  (''aggressive'', \<lparr>ct_cost = 8646911284551352 / 2 ^ 58, ct_tokens = 1000\<rparr>)]\<rparr>"
proof -
  have a1: "float_add 0 (8646911284551352 / 2 ^ 58) = 8646911284551352 / 2 ^ 58"
    unfolding float_add_def
    by (subst round_binary64_eq [where k = 58])
       (simp_all add: round_half_even_def)
  have a2: "float_add (8646911284551352 / 2 ^ 58) (5764607523034235 / 2 ^ 59)
              = 5764607523034235 / 2 ^ 57"
    unfolding float_add_def
    by (subst round_binary64_eq [where k = 57])
       (simp_all add: round_half_even_def)
  have a3: "float_add (5764607523034235 / 2 ^ 57) (5764607523034235 / 2 ^ 58)
              = 8646911284551352 / 2 ^ 57"
    unfolding float_add_def
    by (subst round_binary64_eq [where k = 57])
       (simp_all add: round_half_even_def)
  have b1: "float_add (8646911284551352 / 2 ^ 58) (5764607523034235 / 2 ^ 58)
              = 7205759403792794 / 2 ^ 57"
    unfolding float_add_def
    by (subst round_binary64_eq [where k = 57])
       (simp_all add: round_half_even_def)
  have b2: "float_add 0 (5764607523034235 / 2 ^ 59) = 5764607523034235 / 2 ^ 59"
    unfolding float_add_def
    by (subst round_binary64_eq [where k = 59])
       (simp_all add: round_half_even_def)
  have c1: "float_add (5764607523034235 / 2 ^ 59) (5764607523034235 / 2 ^ 58)
              = 8646911284551352 / 2 ^ 58"
    unfolding float_add_def
    by (subst round_binary64_eq [where k = 58])
       (simp_all add: round_half_even_def)
  show ?thesis
    unfolding float_day_def
    by (subst float_requests_eq, subst three_calls_day)
       (simp only: a1 a2 a3 b1 b2 c1 float_requests_eq, simp)
qed

text \<open>The claim C9 as written fails in the float arithmetic of the program.  After
  \<^verbatim>\<open>record_usage\<close> of the costs \<^verbatim>\<open>0.03\<close> (openai), \<^verbatim>\<open>0.01\<close> (groq) and \<^verbatim>\<open>0.02\<close>
  (openai) on one day, \<open>total_cost\<close> is the float \<^verbatim>\<open>0.06\<close>, while the \<^verbatim>\<open>by_provider\<close>
  sub-totals \<^verbatim>\<open>0.05\<close> and \<^verbatim>\<open>0.01\<close> sum to another value, exactly and also when added as
  floats (\<^verbatim>\<open>0.060000000000000005\<close>); and \<open>total_cost\<close> is not the exact sum of the three
  recorded costs.\<close>

theorem record_usage_float_additivity_counterexample:
  "total_cost float_day = 8646911284551352 / 2 ^ 57
   \<and> sum_list (map req_cost float_requests) = 34587645138205409 / 2 ^ 59
   \<and> sum_cost (by_provider float_day) = 34587645138205411 / 2 ^ 59
   \<and> accumulate float_add (map (\<lambda>kv. ct_cost (snd kv)) (by_provider float_day))
        = 8646911284551353 / 2 ^ 57
   \<and> total_cost float_day \<noteq> sum_list (map req_cost float_requests)
   \<and> sum_cost (by_provider float_day) \<noteq> total_cost float_day
   \<and> accumulate float_add (map (\<lambda>kv. ct_cost (snd kv)) (by_provider float_day))
        \<noteq> total_cost float_day"
proof -
  have d1: "float_add 0 (7205759403792794 / 2 ^ 57) = 7205759403792794 / 2 ^ 57"
    unfolding float_add_def
    by (subst round_binary64_eq [where k = 57]) (simp_all add: round_half_even_def)
  have d2: "float_add (7205759403792794 / 2 ^ 57) (5764607523034235 / 2 ^ 59)
              = 8646911284551353 / 2 ^ 57"
    unfolding float_add_def
    by (subst round_binary64_eq [where k = 57]) (simp_all add: round_half_even_def)
  have t: "total_cost float_day = 8646911284551352 / 2 ^ 57"
    by (simp add: float_day_eq)
  have s: "sum_list (map req_cost float_requests) = 34587645138205409 / 2 ^ 59"
    unfolding float_requests_costs by simp
  have p: "sum_cost (by_provider float_day) = 34587645138205411 / 2 ^ 59"
    by (simp add: float_day_eq sum_cost_def)
  have "map (\<lambda>kv. ct_cost (snd kv)) (by_provider float_day)
          = [7205759403792794 / 2 ^ 57, 5764607523034235 / 2 ^ 59]"
    unfolding float_day_eq by simp
  then have f: "accumulate float_add (map (\<lambda>kv. ct_cost (snd kv)) (by_provider float_day))
                  = 8646911284551353 / 2 ^ 57"
    by (simp only: accumulate_def foldl.simps d1 d2)
  show ?thesis
    unfolding t s p f by simp
qed

text \<open>
  Claim C9, as amended.  Every \<^verbatim>\<open>record_usage\<close> call preserves, for every daily record
  of every user and whatever the addition of costs rounds to, the invariant
  \<open>accumulated\<close>: \<open>total_tokens\<close> is the sum of the recorded token counts and the token
  sub-totals of \<^verbatim>\<open>by_provider\<close> and of \<^verbatim>\<open>by_level\<close> each sum to it; \<open>total_cost\<close> is the
  result of adding the recorded costs one by one, in call order, starting from 0; and
  each provider (each level) that occurs has one entry, whose cost is the result of
  adding in the same way the costs recorded for it, and whose tokens are the sum of
  theirs.  After any non-empty sequence of \<^verbatim>\<open>record_usage\<close> calls with learning
  enabled, for one user and one day that had no record yet, the ledger holds exactly one
  record of that day, it lists the recorded requests and it has these totals and
  sub-totals.  When the addition is exact, \<open>total_cost\<close> is the sum of the recorded
  costs, the cost sub-totals of \<^verbatim>\<open>by_provider\<close> and of \<^verbatim>\<open>by_level\<close> each sum to it, and
  every call preserves the invariant \<open>additive\<close>.
\<close>

theorem record_usage_accumulates:
  "((\<forall>r \<in> set (ledger self u). accumulated add r) \<longrightarrow>
      (\<forall>r \<in> set (ledger (record_usage_with add self today timestamp user_id provider
                            tokens_used cost optimization_level) u). accumulated add r))
   \<and> (cp_learning_enabled self \<and> todays_record today (ledger self user_id) = None
        \<and> reqs \<noteq> [] \<longrightarrow>
        (\<exists>r. todays_record today (ledger (record_all_with add self today user_id reqs) user_id)
                = Some r
           \<and> length (filter (\<lambda>r. date r = today)
                 (ledger (record_all_with add self today user_id reqs) user_id)) = 1
           \<and> requests r = reqs
           \<and> total_tokens r = sum_list (map req_tokens reqs)
           \<and> sum_tokens (by_provider r) = total_tokens r
           \<and> sum_tokens (by_level r) = total_tokens r
           \<and> total_cost r = accumulate add (map req_cost reqs)
           \<and> sub_totals add req_provider (by_provider r) reqs
           \<and> sub_totals add req_level (by_level r) reqs))
   \<and> (cp_learning_enabled self \<and> todays_record today (ledger self user_id) = None
        \<and> reqs \<noteq> [] \<longrightarrow>
        (\<exists>r. todays_record today (ledger (record_all_with (+) self today user_id reqs) user_id)
                = Some r
           \<and> total_cost r = sum_list (map req_cost reqs)
           \<and> sum_cost (by_provider r) = total_cost r
           \<and> sum_cost (by_level r) = total_cost r))
   \<and> ((\<forall>r \<in> set (ledger self u). additive r) \<longrightarrow>
      (\<forall>r \<in> set (ledger (record_usage_with (+) self today timestamp user_id provider
                            tokens_used cost optimization_level) u). additive r))"
proof (intro conjI impI)
  assume "\<forall>r \<in> set (ledger self u). accumulated add r"
  then show "\<forall>r \<in> set (ledger (record_usage_with add self today timestamp user_id provider
                tokens_used cost optimization_level) u). accumulated add r"
    by (rule record_usage_with_preserves_accumulated)
next
  assume h: "cp_learning_enabled self \<and> todays_record today (ledger self user_id) = None
        \<and> reqs \<noteq> []"
  then have en: "cp_learning_enabled self"
    and fresh: "todays_record today (ledger self user_id) = None"
    and ne: "reqs \<noteq> []"
    by simp_all
  let ?r = "foldl (apply_request_with add) (new_daily_record today) reqs"
  have start: "day_state today (ledger self user_id) = new_daily_record today"
    by (simp add: day_state_def fresh)
  have found: "todays_record today (ledger (record_all_with add self today user_id reqs) user_id)
                 = Some ?r"
    by (simp add: todays_record_record_all_with [OF en ne] start)
  have one: "length (filter (\<lambda>r. date r = today)
                 (ledger (record_all_with add self today user_id reqs) user_id)) = 1"
    by (rule count_record_all_with [OF en ne fresh])
  have reqs: "requests ?r = reqs"
    by (simp add: requests_foldl_apply_request_with new_daily_record_def)
  have "accumulated add ?r"
    by (rule accumulated_foldl_apply_request_with) (rule accumulated_new_daily_record)
  then have "total_tokens ?r = sum_list (map req_tokens reqs)
           \<and> sum_tokens (by_provider ?r) = total_tokens ?r
           \<and> sum_tokens (by_level ?r) = total_tokens ?r
           \<and> total_cost ?r = accumulate add (map req_cost reqs)
           \<and> sub_totals add req_provider (by_provider ?r) reqs
           \<and> sub_totals add req_level (by_level ?r) reqs"
    by (simp add: accumulated_def reqs)
  with found one reqs
  show "\<exists>r. todays_record today (ledger (record_all_with add self today user_id reqs) user_id)
                = Some r
           \<and> length (filter (\<lambda>r. date r = today)
                 (ledger (record_all_with add self today user_id reqs) user_id)) = 1
           \<and> requests r = reqs
           \<and> total_tokens r = sum_list (map req_tokens reqs)
           \<and> sum_tokens (by_provider r) = total_tokens r
           \<and> sum_tokens (by_level r) = total_tokens r
           \<and> total_cost r = accumulate add (map req_cost reqs)
           \<and> sub_totals add req_provider (by_provider r) reqs
           \<and> sub_totals add req_level (by_level r) reqs"
    by (intro exI [of _ ?r] conjI) simp_all
next
  assume h: "cp_learning_enabled self \<and> todays_record today (ledger self user_id) = None
        \<and> reqs \<noteq> []"
  with record_usage_additivity [of self u today timestamp user_id provider tokens_used cost
      optimization_level reqs]
  show "\<exists>r. todays_record today (ledger (record_all_with (+) self today user_id reqs) user_id)
                = Some r
           \<and> total_cost r = sum_list (map req_cost reqs)
           \<and> sum_cost (by_provider r) = total_cost r
           \<and> sum_cost (by_level r) = total_cost r"
    unfolding record_all_with_plus by blast
next
  assume "\<forall>r \<in> set (ledger self u). additive r"
  then show "\<forall>r \<in> set (ledger (record_usage_with (+) self today timestamp user_id provider
                tokens_used cost optimization_level) u). additive r"
    unfolding record_usage_with_plus by (rule record_usage_preserves_additive)
qed

theorem record_usage_accumulates_witness:
  "todays_record ''2026-01-05''
      (ledger (record_all_with float_add CostPredictionEngine_init ''2026-01-05'' ''u1''
                 float_requests) ''u1'') = Some float_day
   \<and> requests float_day = float_requests
   \<and> total_tokens float_day = 2000
   \<and> sum_tokens (by_provider float_day) = 2000
   \<and> sum_tokens (by_level float_day) = 2000
   \<and> total_cost float_day = accumulate float_add (map req_cost float_requests)
   \<and> total_cost float_day = 8646911284551352 / 2 ^ 57
   \<and> map_of (by_provider float_day) ''openai''
        = Some (sub_total float_add req_provider ''openai'' float_requests)
   \<and> map_of (by_provider float_day) ''openai''
        = Some \<lparr>ct_cost = 7205759403792794 / 2 ^ 57, ct_tokens = 1600\<rparr>
   \<and> map_of (by_level float_day) ''aggressive''
        = Some (sub_total float_add req_level ''aggressive'' float_requests)
   \<and> map_of (by_level float_day) ''aggressive''
        = Some \<lparr>ct_cost = 8646911284551352 / 2 ^ 58, ct_tokens = 1000\<rparr>"
proof -
  have en: "cp_learning_enabled CostPredictionEngine_init"
    by (simp add: CostPredictionEngine_init_def)
  have fresh: "todays_record ''2026-01-05'' (ledger CostPredictionEngine_init ''u1'') = None"
    by (simp add: CostPredictionEngine_init_def ledger_def todays_record_def)
  have ne: "float_requests \<noteq> []"
    by (simp add: float_requests_def three_requests_def)
  have tok: "sum_list (map req_tokens float_requests) = 2000"
    by (simp add: float_requests_eq)
  note inst = record_usage_accumulates [of CostPredictionEngine_init "''u1''" float_add
      "''2026-01-05''" "''2026-01-05T12:00:00''" "''u1''" "''openai''" 100 "1 / 100"
      "''balanced''" float_requests]
  from inst en fresh ne obtain r
    where r: "todays_record ''2026-01-05''
          (ledger (record_all_with float_add CostPredictionEngine_init ''2026-01-05'' ''u1''
             float_requests) ''u1'') = Some r"
      and facts: "requests r = float_requests"
        "total_tokens r = sum_list (map req_tokens float_requests)"
        "sum_tokens (by_provider r) = total_tokens r"
        "sum_tokens (by_level r) = total_tokens r"
        "total_cost r = accumulate float_add (map req_cost float_requests)"
      and subs: "sub_totals float_add req_provider (by_provider r) float_requests"
        "sub_totals float_add req_level (by_level r) float_requests"
    by blast
  from r have day: "float_day = r"
    by (simp add: float_day_def day_state_def)
  have k1: "''openai'' \<in> req_provider ` set float_requests"
    by (simp add: float_requests_eq)
  have k2: "''aggressive'' \<in> req_level ` set float_requests"
    by (simp add: float_requests_eq)
  from subs(1) k1 have p: "map_of (by_provider r) ''openai''
        = Some (sub_total float_add req_provider ''openai'' float_requests)"
    unfolding sub_totals_def by blast
  from subs(2) k2 have l: "map_of (by_level r) ''aggressive''
        = Some (sub_total float_add req_level ''aggressive'' float_requests)"
    unfolding sub_totals_def by blast
  have v: "total_cost float_day = 8646911284551352 / 2 ^ 57"
    "map_of (by_provider float_day) ''openai''
        = Some \<lparr>ct_cost = 7205759403792794 / 2 ^ 57, ct_tokens = 1600\<rparr>"
    "map_of (by_level float_day) ''aggressive''
        = Some \<lparr>ct_cost = 8646911284551352 / 2 ^ 58, ct_tokens = 1000\<rparr>"
    by (simp_all add: float_day_eq)
  from r facts p l tok show ?thesis
    unfolding day [symmetric] using v by (intro conjI) simp_all
qed

section \<open>Properties of \<^verbatim>\<open>predict_monthly_cost\<close>\<close>

lemma mean_Nil: "mean [] = Inl StatisticsError"
  by (simp add: mean_def)

lemma mean_nonempty: "xs \<noteq> [] \<Longrightarrow> mean xs = Inr (sum_list xs / real (length xs))"
  by (simp add: mean_def)

lemma detect_trend_three:
  assumes "length daily_costs = 3"
  shows "detect_trend daily_costs = Inl StatisticsError"
proof -
  have "daily_costs \<noteq> []" using assms by auto
  then show ?thesis using assms
    by (simp add: detect_trend_def mean_Nil mean_nonempty)
qed

lemma detect_trend_short:
  assumes "length daily_costs < 3"
  shows "detect_trend daily_costs = Inr ''stable''"
  using assms by (simp add: detect_trend_def)

lemma detect_trend_long:
  assumes "4 \<le> length daily_costs"
    and "recent_avg = sum_list (drop (length daily_costs - 3) daily_costs) / 3"
    and "older_avg = sum_list (take (length daily_costs - 3) daily_costs)
                       / real (length daily_costs - 3)"
  shows "detect_trend daily_costs =
           Inr (if older_avg * 1.1 < recent_avg then ''up''
                else if recent_avg < older_avg * 0.9 then ''down''
                else ''stable'')"
proof -
  have a: "drop (length daily_costs - 3) daily_costs \<noteq> []" using assms(1) by simp
  have b: "take (length daily_costs - 3) daily_costs \<noteq> []" using assms(1) by auto
  have d: "length daily_costs - (length daily_costs - 3) = 3" using assms(1) by simp
  have m1: "mean (drop (length daily_costs - 3) daily_costs) = Inr recent_avg"
    by (simp add: mean_nonempty [OF a] assms(2) d)
  have m2: "mean (take (length daily_costs - 3) daily_costs) = Inr older_avg"
    by (simp add: mean_nonempty [OF b] assms(3))
  have "3 \<le> length daily_costs" using assms(1) by simp
  then show ?thesis
    by (simp add: detect_trend_def m1 m2)
qed

lemma average_and_confidence_nonempty:
  assumes "daily_costs \<noteq> []"
  shows "average_and_confidence daily_costs =
           Inr (sum_list daily_costs / real (length daily_costs),
                min 0.95 (0.5 + 0.05 * real (length daily_costs)))"
  using assms by (simp add: average_and_confidence_def mean_nonempty Let_def mult.commute)

lemma predict_monthly_cost_three:
  assumes "user_usage self user_id = Some usage" and "length usage = 3"
  shows "predict_monthly_cost self now user_id = Inl StatisticsError"
proof -
  have ne: "usage \<noteq> []" using assms(2) by auto
  then have m: "map total_cost usage \<noteq> []" by simp
  have t: "detect_trend (map total_cost usage) = Inl StatisticsError"
    by (rule detect_trend_three) (simp add: assms(2))
  show ?thesis
    by (simp add: predict_monthly_cost_def assms(1) ne
        average_and_confidence_nonempty [OF m] t Let_def)
qed

lemma predict_monthly_cost_returns:
  assumes "user_usage self user_id = Some usage" and "usage \<noteq> []" and "length usage \<noteq> 3"
  shows "\<exists>p. predict_monthly_cost self now user_id = Inr p
            \<and> confidence p = min 0.95 (0.5 + 0.05 * real (length usage))
            \<and> (\<exists>t. detect_trend (map total_cost usage) = Inr t \<and> trend p = t)"
proof -
  have m: "map total_cost usage \<noteq> []" using assms(2) by simp
  have "\<exists>t. detect_trend (map total_cost usage) = Inr t"
  proof (cases "length usage < 3")
    case True
    then show ?thesis by (simp add: detect_trend_short)
  next
    case False
    with assms(3) have "4 \<le> length (map total_cost usage)" by simp
    from detect_trend_long [OF this refl refl] show ?thesis by blast
  qed
  then obtain t where t: "detect_trend (map total_cost usage) = Inr t" ..
  show ?thesis
    by (simp add: predict_monthly_cost_def assms(1,2)
        average_and_confidence_nonempty [OF m] t Let_def)
qed

lemma predict_monthly_cost_confidence_value:
  assumes "user_usage self user_id = Some usage" and "usage \<noteq> []"
    and "predict_monthly_cost self now user_id = Inr p"
  shows "confidence p = min 0.95 (0.5 + 0.05 * real (length usage))"
proof -
  have "length usage \<noteq> 3"
    using predict_monthly_cost_three [OF assms(1)] assms(3) by auto
  from predict_monthly_cost_returns [OF assms(1,2) this, of now] assms(3)
  show ?thesis by auto
qed


lemma predict_monthly_cost_trend_short:
  assumes "user_usage self user_id = Some usage" and "length usage < 3"
  shows "\<exists>p. predict_monthly_cost self now user_id = Inr p \<and> trend p = ''stable''"
proof (cases "usage = []")
  case True
  then show ?thesis
    by (simp add: predict_monthly_cost_def assms(1) zero_prediction_def)
next
  case False
  from assms(2) have "length usage \<noteq> 3" by simp
  from predict_monthly_cost_returns [OF assms(1) False this, of now]
  show ?thesis using assms(2) by (auto simp: detect_trend_short)
qed

lemma predict_monthly_cost_trend_long:
  assumes "user_usage self user_id = Some usage" and "4 \<le> length usage"
    and "recent_avg = sum_list (map total_cost (drop (length usage - 3) usage)) / 3"
    and "older_avg = sum_list (map total_cost (take (length usage - 3) usage))
                       / real (length usage - 3)"
  shows "\<exists>p. predict_monthly_cost self now user_id = Inr p
            \<and> trend p = (if older_avg * 1.1 < recent_avg then ''up''
                          else if recent_avg < older_avg * 0.9 then ''down''
                          else ''stable'')"
proof -
  from assms(2) have ne: "usage \<noteq> []" and n3: "length usage \<noteq> 3" by auto
  have "detect_trend (map total_cost usage) =
           Inr (if older_avg * 1.1 < recent_avg then ''up''
                else if recent_avg < older_avg * 0.9 then ''down''
                else ''stable'')"
    by (rule detect_trend_long) (simp_all add: assms(2,3,4) drop_map take_map)
  with predict_monthly_cost_returns [OF assms(1) ne n3, of now]
  show ?thesis by auto
qed

lemmas ledger_eval_defs =
  engine_with_costs_def january_def CostPredictionEngine_init_def record_usage_def
  update_record_def new_daily_record_def ledger_def Let_def

lemma three_day_ledger:
  "\<exists>usage. user_usage (engine_with_costs (january [5, 5, 5])) ''u1'' = Some usage
      \<and> map date usage = [''2026-01-01'', ''2026-01-02'', ''2026-01-03'']
      \<and> map total_cost usage = [5, 5, 5]"
  by (simp add: ledger_eval_defs)

text \<open>
  Claim C1 describes the trend classification and says that \<^verbatim>\<open>predict_monthly_cost\<close>
  returns normally for every record count, exactly 3 records included.  The
  classification is as described for 4 records or more
  (\<open>predict_monthly_cost_trend_long\<close>, and \<open>predict_monthly_cost_trend_up_example\<close> for
  the costs 5,5,5,5,5,15,15,15) and the trend is \<open>stable\<close> for fewer than 3
  (\<open>predict_monthly_cost_trend_short\<close>).  With exactly 3 records the operation does not
  return: \<^verbatim>\<open>daily_costs[:-3]\<close> is empty and \<^verbatim>\<open>statistics.mean\<close> raises
  \<^verbatim>\<open>StatisticsError\<close>, for every engine, every user with a ledger of 3 daily records
  and every date.
\<close>

theorem predict_monthly_cost_three_records_raises:
  assumes "user_usage self user_id = Some usage" and "length usage = 3"
  shows "predict_monthly_cost self now user_id = Inl StatisticsError"
  using assms by (rule predict_monthly_cost_three)

theorem predict_monthly_cost_three_records_raises_witness:
  "length (ledger (engine_with_costs (january [5, 5, 5])) ''u1'') = 3
   \<and> predict_monthly_cost (engine_with_costs (january [5, 5, 5])) jan_10 ''u1''
       = Inl StatisticsError"
proof -
  from three_day_ledger obtain usage
    where u: "user_usage (engine_with_costs (january [5, 5, 5])) ''u1'' = Some usage"
      and d: "map total_cost usage = [5, 5, 5]"
    by (elim exE conjE)
  from d have len: "length usage = 3"
    by (metis length_map length_Cons list.size(3) numeral_3_eq_3)
  from predict_monthly_cost_three_records_raises [OF u len, of jan_10] u len
  show ?thesis by (simp add: ledger_def)
qed

lemma eight_day_ledger:
  "\<exists>usage. user_usage (engine_with_costs (january [5, 5, 5, 5, 5, 15, 15, 15])) ''u1''
              = Some usage
      \<and> map total_cost usage = [5, 5, 5, 5, 5, 15, 15, 15]"
  by (simp add: ledger_eval_defs)

lemma predict_monthly_cost_trend_up_example:
  "\<exists>p. predict_monthly_cost (engine_with_costs (january [5, 5, 5, 5, 5, 15, 15, 15]))
          jan_10 ''u1'' = Inr p \<and> trend p = ''up''"
proof -
  from eight_day_ledger obtain usage
    where u: "user_usage (engine_with_costs (january [5, 5, 5, 5, 5, 15, 15, 15])) ''u1''
              = Some usage"
      and d: "map total_cost usage = [5, 5, 5, 5, 5, 15, 15, 15]"
    by (elim exE conjE)
  from d have len: "length usage = 8"
    using length_map [of total_cost usage] by simp
  have r: "sum_list (map total_cost (drop (length usage - 3) usage)) / 3 = 15"
    by (simp add: drop_map [symmetric] d len)
  have o: "sum_list (map total_cost (take (length usage - 3) usage)) / real (length usage - 3) = 5"
    by (simp add: take_map [symmetric] d len)
  have "4 \<le> length usage" using len by simp
  from predict_monthly_cost_trend_long [OF u this r [symmetric] o [symmetric], of jan_10]
  show ?thesis by simp
qed


lemma confidence_formula_mono:
  assumes "n \<le> m"
  shows "min 0.95 (0.5 + 0.05 * real n) \<le> min (0.95::real) (0.5 + 0.05 * real m)"
proof -
  from assms have "real n \<le> real m" by simp
  then have "0.5 + 0.05 * real n \<le> 0.5 + 0.05 * real m" by simp
  then show ?thesis by (rule min.mono [OF order_refl])
qed

lemma confidence_formula_cap:
  assumes "9 \<le> n"
  shows "min 0.95 (0.5 + 0.05 * real n) = (0.95::real)"
proof -
  from assms have "9 \<le> real n" by simp
  then have "(0.95::real) \<le> 0.5 + 0.05 * real n" by simp
  then show ?thesis by (simp add: min_def)
qed

text \<open>
  The confidence of a returned prediction.  For a user with a non-empty ledger of \<open>N\<close>
  daily records, every prediction that \<^verbatim>\<open>predict_monthly_cost\<close> returns has the
  confidence \<open>min(0.95, 0.5 + 0.05 \<times> N)\<close>, and a prediction is returned for every \<open>N\<close>
  other than 3; the confidence is 0.55 at \<open>N = 1\<close> and 0.95 for every \<open>N \<ge> 9\<close>; and of
  two returned predictions, the one from the ledger with at least as many records has at
  least the confidence of the other.
\<close>

lemma predict_monthly_cost_confidence:
  assumes "user_usage self user_id = Some usage" and "usage \<noteq> []"
  shows "(\<forall>p. predict_monthly_cost self now user_id = Inr p \<longrightarrow>
            confidence p = min 0.95 (0.5 + 0.05 * real (length usage)))
       \<and> (length usage \<noteq> 3 \<longrightarrow> (\<exists>p. predict_monthly_cost self now user_id = Inr p))
       \<and> (length usage = 1 \<longrightarrow>
            (\<exists>p. predict_monthly_cost self now user_id = Inr p \<and> confidence p = 0.55))
       \<and> (9 \<le> length usage \<longrightarrow>
            (\<exists>p. predict_monthly_cost self now user_id = Inr p \<and> confidence p = 0.95))
       \<and> (\<forall>self' now' user_id' usage' p p'.
            user_usage self' user_id' = Some usage' \<and> length usage \<le> length usage'
            \<and> predict_monthly_cost self now user_id = Inr p
            \<and> predict_monthly_cost self' now' user_id' = Inr p'
            \<longrightarrow> confidence p \<le> confidence p')"
proof (intro conjI allI impI)
  fix p assume "predict_monthly_cost self now user_id = Inr p"
  with assms show "confidence p = min 0.95 (0.5 + 0.05 * real (length usage))"
    by (rule predict_monthly_cost_confidence_value)
next
  assume "length usage \<noteq> 3"
  from predict_monthly_cost_returns [OF assms this, of now]
  show "\<exists>p. predict_monthly_cost self now user_id = Inr p" by blast
next
  assume one: "length usage = 1"
  then have "length usage \<noteq> 3" by simp
  from predict_monthly_cost_returns [OF assms this, of now] one
  show "\<exists>p. predict_monthly_cost self now user_id = Inr p \<and> confidence p = 0.55"
    by auto
next
  assume nine: "9 \<le> length usage"
  then have "length usage \<noteq> 3" by simp
  from predict_monthly_cost_returns [OF assms this, of now] confidence_formula_cap [OF nine]
  show "\<exists>p. predict_monthly_cost self now user_id = Inr p \<and> confidence p = 0.95"
    by auto
next
  fix self' now' user_id' usage' p p'
  assume h: "user_usage self' user_id' = Some usage' \<and> length usage \<le> length usage'
            \<and> predict_monthly_cost self now user_id = Inr p
            \<and> predict_monthly_cost self' now' user_id' = Inr p'"
  then have le: "length usage \<le> length usage'" by simp
  with assms(2) have ne': "usage' \<noteq> []" by auto
  have "confidence p = min 0.95 (0.5 + 0.05 * real (length usage))"
    using assms h by (blast intro: predict_monthly_cost_confidence_value)
  moreover have "confidence p' = min 0.95 (0.5 + 0.05 * real (length usage'))"
    using h ne' by (blast intro: predict_monthly_cost_confidence_value)
  ultimately show "confidence p \<le> confidence p'"
    using confidence_formula_mono [OF le] by simp
qed

lemma one_day_ledger:
  "\<exists>usage. user_usage (engine_with_costs (january [5])) ''u1'' = Some usage
      \<and> map total_cost usage = [5]"
  by (simp add: ledger_eval_defs)

lemma predict_monthly_cost_confidence_example:
  "\<exists>p p'. predict_monthly_cost (engine_with_costs (january [5])) jan_10 ''u1'' = Inr p
      \<and> confidence p = 0.55
      \<and> predict_monthly_cost (engine_with_costs (january [5, 5, 5, 5, 5, 15, 15, 15]))
           jan_10 ''u1'' = Inr p'
      \<and> confidence p' = 0.9
      \<and> confidence p \<le> confidence p'"
proof -
  from one_day_ledger obtain usage
    where u: "user_usage (engine_with_costs (january [5])) ''u1'' = Some usage"
      and d: "map total_cost usage = [5]"
    by (elim exE conjE)
  from eight_day_ledger obtain usage'
    where u': "user_usage (engine_with_costs (january [5, 5, 5, 5, 5, 15, 15, 15])) ''u1''
              = Some usage'"
      and d': "map total_cost usage' = [5, 5, 5, 5, 5, 15, 15, 15]"
    by (elim exE conjE)
  from d have len: "length usage = 1" using length_map [of total_cost usage] by simp
  from d' have len': "length usage' = 8" using length_map [of total_cost usage'] by simp
  from len have ne: "usage \<noteq> []" by auto
  from len' have ne': "usage' \<noteq> []" by auto
  note c = predict_monthly_cost_confidence [OF u ne, of jan_10]
  note c' = predict_monthly_cost_confidence [OF u' ne', of jan_10]
  from c len obtain p
    where p: "predict_monthly_cost (engine_with_costs (january [5])) jan_10 ''u1'' = Inr p"
      and cp: "confidence p = 0.55"
    by auto
  from c' len' obtain p'
    where p': "predict_monthly_cost (engine_with_costs (january [5, 5, 5, 5, 5, 15, 15, 15]))
                 jan_10 ''u1'' = Inr p'"
    by auto
  from c' p' len' have cp': "confidence p' = 0.9" by auto
  from c have "\<forall>self' now' user_id' usage' p p'.
            user_usage self' user_id' = Some usage' \<and> length usage \<le> length usage'
            \<and> predict_monthly_cost (engine_with_costs (january [5])) jan_10 ''u1'' = Inr p
            \<and> predict_monthly_cost self' now' user_id' = Inr p'
            \<longrightarrow> confidence p \<le> confidence p'"
    by (elim conjE)
  moreover have "length usage \<le> length usage'" using len len' by simp
  ultimately have "confidence p \<le> confidence p'" using u' p p' by blast
  with p cp p' cp' show ?thesis by (intro exI [of _ p] exI [of _ p'] conjI)
qed

text \<open>
  Claim C8 says that for every non-empty ledger with \<open>N\<close> daily records the confidence
  returned by \<^verbatim>\<open>predict_monthly_cost\<close> is \<open>min(0.95, 0.5 + 0.05 \<times> N)\<close>.  That is so for
  every \<open>N\<close> other than 3 (\<open>predict_monthly_cost_confidence\<close>).  With exactly 3 records the
  confidence 0.65 is computed, but no prediction carries it: the trend block that follows
  raises \<^verbatim>\<open>StatisticsError\<close>, by the defect of claim C1, for every engine, every user
  with a ledger of 3 daily records and every date.
\<close>

theorem predict_monthly_cost_three_records_no_confidence:
  assumes "user_usage self user_id = Some usage" and "length usage = 3"
  shows "usage \<noteq> []
       \<and> (\<exists>avg. average_and_confidence (map total_cost usage) = Inr (avg, 0.65))
       \<and> predict_monthly_cost self now user_id = Inl StatisticsError
       \<and> \<not> (\<exists>p. predict_monthly_cost self now user_id = Inr p
                \<and> confidence p = min 0.95 (0.5 + 0.05 * real (length usage)))"
proof -
  have ne: "usage \<noteq> []" using assms(2) by auto
  then have m: "map total_cost usage \<noteq> []" by simp
  have c: "min 0.95 (0.5 + 0.05 * real (length (map total_cost usage))) = (0.65::real)"
    by (simp add: assms(2))
  have a: "\<exists>avg. average_and_confidence (map total_cost usage) = Inr (avg, 0.65)"
    unfolding average_and_confidence_nonempty [OF m] c by blast
  have r: "predict_monthly_cost self now user_id = Inl StatisticsError"
    using assms by (rule predict_monthly_cost_three)
  from ne a r show ?thesis by simp
qed

theorem predict_monthly_cost_three_records_no_confidence_witness:
  "length (ledger (engine_with_costs (january [5, 5, 5])) ''u1'') = 3
   \<and> average_and_confidence
        (map total_cost (ledger (engine_with_costs (january [5, 5, 5])) ''u1'')) = Inr (5, 0.65)
   \<and> predict_monthly_cost (engine_with_costs (january [5, 5, 5])) jan_10 ''u1''
        = Inl StatisticsError
   \<and> (\<forall>p. predict_monthly_cost (engine_with_costs (january [5, 5, 5])) jan_10 ''u1'' \<noteq> Inr p)"
proof -
  from three_day_ledger obtain usage
    where u: "user_usage (engine_with_costs (january [5, 5, 5])) ''u1'' = Some usage"
      and d: "map total_cost usage = [5, 5, 5]"
    by (elim exE conjE)
  from d have len: "length usage = 3"
    using length_map [of total_cost usage] by simp
  have l: "ledger (engine_with_costs (january [5, 5, 5])) ''u1'' = usage"
    by (simp add: ledger_def u)
  have a: "average_and_confidence (map total_cost usage) = Inr (5, 0.65)"
    by (simp add: d average_and_confidence_def mean_def)
  from predict_monthly_cost_three_records_no_confidence [OF u len, of jan_10]
  have "predict_monthly_cost (engine_with_costs (january [5, 5, 5])) jan_10 ''u1''
          = Inl StatisticsError"
    by (elim conjE)
  with len a show ?thesis by (simp add: l)
qed

section \<open>Properties of \<^verbatim>\<open>detect_anomalies\<close>\<close>

lemma dict_eq_refl [simp]: "dict_eq a a"
  by (simp add: dict_eq_def list_all_iff)

lemma record_eq_refl [simp]: "record_eq r r"
  by (simp add: record_eq_def)

lemma index_of_member:
  "r \<in> set usage \<Longrightarrow> \<exists>i. index_of usage r = Inr i \<and> i < length usage"
  by (induction usage) auto

lemma filter_raise_total:
  assumes "\<And>x. x \<in> set xs \<Longrightarrow> \<exists>b. p x = Inr b"
  shows "\<exists>ys. filter_raise p xs = Inr ys \<and> set ys \<subseteq> set xs \<and> length ys \<le> length xs"
  using assms
proof (induction xs)
  case Nil
  show ?case by simp
next
  case (Cons x xs)
  from Cons.prems obtain b where b: "p x = Inr b" by auto
  from Cons obtain ys where ys: "filter_raise p xs = Inr ys" "set ys \<subseteq> set xs"
    "length ys \<le> length xs"
    by auto
  with b show ?case by auto
qed

lemma lookback_window_total:
  "\<exists>recent. lookback_window usage lookback_days = Inr recent \<and> set recent \<subseteq> set usage
      \<and> length recent \<le> length usage"
  unfolding lookback_window_def
proof (rule filter_raise_total)
  fix r assume "r \<in> set usage"
  from index_of_member [OF this] obtain i where "index_of usage r = Inr i" by blast
  then show "\<exists>b. (case index_of usage r of Inl e \<Rightarrow> Inl e
                   | Inr i \<Rightarrow> Inr (int (length usage) - int i \<le> lookback_days)) = Inr b"
    by simp
qed

text \<open>In a ledger with one record per date, as \<^verbatim>\<open>record_usage\<close> builds it, the window
  is the last \<open>lookback_days\<close> records.\<close>

lemma index_of_distinct_dates:
  assumes "distinct (map date usage)" and "i < length usage"
  shows "index_of usage (usage ! i) = Inr i"
  using assms
proof (induction usage arbitrary: i)
  case Nil
  then show ?case by simp
next
  case (Cons s ss)
  show ?case
  proof (cases i)
    case 0
    then show ?thesis by simp
  next
    case (Suc j)
    with Cons.prems have j: "j < length ss" and d: "distinct (map date ss)"
      and "date s \<notin> date ` set ss"
      by auto
    then have "date s \<noteq> date (ss ! j)" by (metis image_eqI nth_mem)
    then have "\<not> record_eq s (ss ! j)" by (auto simp: record_eq_def)
    with Cons.IH [OF d j] Suc show ?thesis by simp
  qed
qed

lemma filter_raise_filter:
  assumes "\<And>x. x \<in> set xs \<Longrightarrow> p x = Inr (q x)"
  shows "filter_raise p xs = Inr (filter q xs)"
  using assms by (induction xs) simp_all

lemma filter_from_index:
  assumes "\<And>j. j < length xs \<Longrightarrow> f (xs ! j) = k + j"
  shows "filter (\<lambda>x. m \<le> f x) xs = drop (m - k) xs"
  using assms
proof (induction xs arbitrary: k)
  case Nil
  show ?case by simp
next
  case (Cons x xs)
  have fx: "f x = k" using Cons.prems [of 0] by simp
  have "\<And>j. j < length xs \<Longrightarrow> f (xs ! j) = Suc k + j"
    using Cons.prems [of "Suc _"] by simp
  from Cons.IH [OF this] have ih: "filter (\<lambda>x. m \<le> f x) xs = drop (m - Suc k) xs" .
  show ?case
  proof (cases "m \<le> k")
    case True
    with ih fx show ?thesis by simp
  next
    case False
    then have "m - k = Suc (m - Suc k)" by simp
    with False ih fx show ?thesis by simp
  qed
qed

lemma lookback_window_distinct_dates:
  assumes "distinct (map date usage)"
  shows "lookback_window usage lookback_days =
           Inr (drop (length usage - nat lookback_days) usage)"
proof -
  define f where "f r = (case index_of usage r of Inl e \<Rightarrow> 0 | Inr i \<Rightarrow> i)" for r
  define m where "m = nat (int (length usage) - lookback_days)"
  have idx: "index_of usage (usage ! j) = Inr j" if "j < length usage" for j
    using assms that by (rule index_of_distinct_dates)
  have p: "(case index_of usage r of Inl e \<Rightarrow> Inl e
            | Inr i \<Rightarrow> Inr (int (length usage) - int i \<le> lookback_days)) = Inr (m \<le> f r)"
    if "r \<in> set usage" for r
  proof -
    from that obtain j where j: "j < length usage" "r = usage ! j"
      by (metis in_set_conv_nth)
    show ?thesis
      using idx [OF j(1)] by (auto simp: j(2) f_def m_def)
  qed
  have "lookback_window usage lookback_days = Inr (filter (\<lambda>r. m \<le> f r) usage)"
    unfolding lookback_window_def by (rule filter_raise_filter) (rule p)
  also have "filter (\<lambda>r. m \<le> f r) usage = drop (m - 0) usage"
    by (rule filter_from_index) (simp add: f_def idx)
  also have "drop (m - 0) usage = drop (length usage - nat lookback_days) usage"
  proof (cases "0 \<le> lookback_days")
    case True
    then have "m = length usage - nat lookback_days" by (simp add: m_def nat_diff_distrib')
    then show ?thesis by simp
  next
    case False
    then have "length usage \<le> m" by (simp add: m_def)
    with False show ?thesis by simp
  qed
  finally show ?thesis .
qed

lemma guarded_stdev_window:
  assumes "2 \<le> length costs"
  shows "guarded_stdev costs = window_stdev costs"
  using assms
  by (simp add: guarded_stdev_def stdev_def window_stdev_def window_average_def Let_def)




lemma detect_anomalies_window:
  assumes "user_usage self user_id = Some usage"
    and "lookback_window usage lookback_days = Inr recent"
    and "2 \<le> length recent"
  shows "detect_anomalies self user_id lookback_days =
           Inr (scan_anomalies (window_average (map total_cost recent))
                  (window_stdev (map total_cost recent)) None recent)"
proof -
  have ne: "usage \<noteq> []"
    using assms(2,3) by (auto simp: lookback_window_def)
  have r: "recent \<noteq> []" using assms(3) by auto
  have m: "mean (map total_cost recent) = Inr (window_average (map total_cost recent))"
    using r by (simp add: mean_def window_average_def)
  have g: "guarded_stdev (map total_cost recent) = window_stdev (map total_cost recent)"
    by (rule guarded_stdev_window) (simp add: assms(3))
  show ?thesis
    using assms(3)
    by (simp add: detect_anomalies_def assms(1,2) ne m g Let_def)
qed

lemma detect_anomalies_total:
  "\<exists>anomalies. detect_anomalies self user_id lookback_days = Inr anomalies"
proof (cases "user_usage self user_id")
  case None
  then show ?thesis by (simp add: detect_anomalies_def)
next
  case (Some usage)
  from lookback_window_total obtain recent
    where w: "lookback_window usage lookback_days = Inr recent" by blast
  show ?thesis
  proof (cases "2 \<le> length recent")
    case True
    from detect_anomalies_window [OF Some w True] show ?thesis by simp
  next
    case False
    then show ?thesis by (simp add: detect_anomalies_def Some w)
  qed
qed




lemma date_day_record [simp]: "date (day_record d c) = d"
  by (simp add: day_record_def update_record_def new_daily_record_def)

lemma total_cost_day_record [simp]: "total_cost (day_record d c) = c"
  by (simp add: day_record_def update_record_def new_daily_record_def)






section \<open>Properties of \<^verbatim>\<open>get_efficiency_score\<close>\<close>

text \<open>With no tokens recorded the cost sub-score is 50 and the local variable
  \<^verbatim>\<open>cost_per_token\<close> stays unbound.\<close>

lemma cost_per_token_score_zero_tokens:
  "cost_per_token_score total_all 0 = (50, None)"
  by (simp add: cost_per_token_score_def)

lemma get_efficiency_score_returns:
  assumes "user_usage self user_id = Some usage" and "usage \<noteq> []"
    and "sum_list (map total_tokens usage) \<noteq> 0"
  shows "\<exists>e. get_efficiency_score self user_id = Inr e
            \<and> total_tokens_analyzed e = Some (sum_list (map total_tokens usage))"
  using assms
  by (simp add: get_efficiency_score_def cost_per_token_score_def Let_def)

text \<open>
  Claim C3 says that for a user with at least one daily record and 0 recorded tokens
  \<^verbatim>\<open>get_efficiency_score\<close> returns normally, with the cost sub-score 50 and a record
  holding \<open>score\<close>, \<open>message\<close>, \<open>breakdown\<close>, \<open>cost_per_token\<close> and
  \<open>total_tokens_analyzed\<close>.  The cost sub-score is 50 there
  (\<open>cost_per_token_score_zero_tokens\<close>), but the method does not return: the returned
  dict reads the local variable \<^verbatim>\<open>cost_per_token\<close>, which only the branch for a
  non-zero token count assigns, so the method raises \<^verbatim>\<open>UnboundLocalError\<close> for every
  such user.
\<close>

theorem get_efficiency_score_zero_tokens_raises:
  assumes "user_usage self user_id = Some usage" and "usage \<noteq> []"
    and "sum_list (map total_tokens usage) = 0"
  shows "get_efficiency_score self user_id = Inl UnboundLocalError"
  using assms
  by (simp add: get_efficiency_score_def cost_per_token_score_def Let_def)

theorem get_efficiency_score_zero_tokens_raises_witness:
  "(\<exists>usage. user_usage zero_token_engine ''u1'' = Some usage \<and> length usage = 1
       \<and> sum_list (map total_tokens usage) = 0)
   \<and> get_efficiency_score zero_token_engine ''u1'' = Inl UnboundLocalError"
proof -
  have u: "user_usage zero_token_engine ''u1'' =
             Some [update_record ''2026-01-01T12:00:00'' ''openai'' 0 0 ''balanced''
                     (new_daily_record ''2026-01-01'')]"
    by (simp add: zero_token_engine_def record_usage_def CostPredictionEngine_init_def)
  have z: "sum_list (map total_tokens
             [update_record ''2026-01-01T12:00:00'' ''openai'' 0 0 ''balanced''
                (new_daily_record ''2026-01-01'')]) = 0"
    by (simp add: update_record_def new_daily_record_def)
  from get_efficiency_score_zero_tokens_raises [OF u _ z] u z
  show ?thesis by simp
qed

section \<open>Unknown users\<close>

text \<open>
  Claim C7.  For a user identifier with no ledger entry, or with an empty ledger,
  \<^verbatim>\<open>predict_monthly_cost\<close> returns the prediction with every numeric field 0 and trend
  \<open>stable\<close>, \<^verbatim>\<open>detect_anomalies\<close> and \<^verbatim>\<open>recommend_cost_reduction\<close> return the empty
  list, and \<^verbatim>\<open>get_efficiency_score\<close> returns score 0 with the message
  \<open>Not enough data\<close> and an empty breakdown; none of the four raises, whatever the date,
  the lookback and the provider statistics passed.
\<close>

theorem unknown_user_degradation:
  assumes "user_usage self user_id = None \<or> user_usage self user_id = Some []"
  shows "predict_monthly_cost self now user_id =
           Inr \<lparr>daily_average = 0, current_period_cost = 0, projected_period_end = 0,
                days_remaining = 0, confidence = 0, trend = ''stable''\<rparr>
       \<and> detect_anomalies self user_id lookback_days = Inr []
       \<and> recommend_cost_reduction self user_id by_provider_arg = Inr []
       \<and> get_efficiency_score self user_id =
           Inr \<lparr>score = 0, eff_message = ''Not enough data'', breakdown = None,
                eff_cost_per_token = None, total_tokens_analyzed = None\<rparr>"
  using assms
  by (auto simp: predict_monthly_cost_def zero_prediction_def detect_anomalies_def
      recommend_cost_reduction_def get_efficiency_score_def)

theorem unknown_user_degradation_witness:
  "predict_monthly_cost CostPredictionEngine_init jan_10 ''nobody'' =
           Inr \<lparr>daily_average = 0, current_period_cost = 0, projected_period_end = 0,
                days_remaining = 0, confidence = 0, trend = ''stable''\<rparr>
       \<and> detect_anomalies CostPredictionEngine_init ''nobody'' 7 = Inr []
       \<and> recommend_cost_reduction CostPredictionEngine_init ''nobody'' None = Inr []
       \<and> get_efficiency_score CostPredictionEngine_init ''nobody'' =
           Inr \<lparr>score = 0, eff_message = ''Not enough data'', breakdown = None,
                eff_cost_per_token = None, total_tokens_analyzed = None\<rparr>"
proof -
  have "user_usage CostPredictionEngine_init ''nobody'' = None
        \<or> user_usage CostPredictionEngine_init ''nobody'' = Some []"
    by (simp add: CostPredictionEngine_init_def)
  then show ?thesis by (rule unknown_user_degradation)
qed

end
